theory Spec2Isabelle
  imports Complex_Main "HOL-Library.Multiset"
begin

section \<open>Sensor dashboard: synthetic series generator and rolling playback buffer\<close>

text \<open>
  A shallow embedding of \<^verbatim>\<open>Model/sensor2_5.py\<close>: the generator
  \<^verbatim>\<open>generate_simulated_data\<close>, its three fetch wrappers, the post-processor
  \<^verbatim>\<open>process_sensor_data\<close>, the playback functions \<^verbatim>\<open>simulate_real_time_data\<close>
  and \<^verbatim>\<open>update_real_time_buffer\<close>, and the two page blocks that store a new batch
  in the session state.
\<close>

subsection \<open>Instants and durations of the datetime library\<close>

text \<open>
  A naive \<^verbatim>\<open>datetime\<close> is the number of microseconds since 0001-01-01T00:00:00.
  The type of the library ends at 9999-12-31T23:59:59.999999: arithmetic that leaves the
  range raises \<^verbatim>\<open>OverflowError\<close>. A \<^verbatim>\<open>timedelta\<close> is a number of microseconds
  whose day count is at most 999999999 in absolute value.
\<close>

type_synonym datetime = int
type_synonym timedelta = int

datatype error = OverflowError | KeyError | OutOfBoundsDatetime

definition us_per_minute :: int where
  "us_per_minute = 60000000"

definition us_per_hour :: int where
  "us_per_hour = 3600000000"

definition us_per_day :: int where
  "us_per_day = 86400000000"

definition datetime_max :: datetime where
  "datetime_max = 3652059 * us_per_day - 1"

definition valid_datetime :: "datetime \<Rightarrow> bool" where
  "valid_datetime t \<longleftrightarrow> 0 \<le> t \<and> t \<le> datetime_max"

definition is_leap :: "int \<Rightarrow> bool" where
  "is_leap y \<longleftrightarrow> y mod 4 = 0 \<and> (y mod 100 \<noteq> 0 \<or> y mod 400 = 0)"

definition days_before_year :: "int \<Rightarrow> int" where
  "days_before_year y = (y - 1) * 365 + (y - 1) div 4 - (y - 1) div 100 + (y - 1) div 400"

definition days_before_month :: "int \<Rightarrow> int \<Rightarrow> int" where
  "days_before_month y m =
     sum_list (take (nat (m - 1))
       [31, if is_leap y then 29 else 28, 31, 30, 31, 30, 31, 31, 30, 31, 30, 31])"

text \<open>\<^verbatim>\<open>datetime(y, m, d, hh, mm)\<close> for a date of the calendar.\<close>

definition mk_datetime :: "int \<Rightarrow> int \<Rightarrow> int \<Rightarrow> int \<Rightarrow> int \<Rightarrow> datetime" where
  "mk_datetime y m d hh mm =
     (days_before_year y + days_before_month y m + (d - 1)) * us_per_day
       + hh * us_per_hour + mm * us_per_minute"

text \<open>The \<^verbatim>\<open>hour\<close> attribute.\<close>

definition hour :: "datetime \<Rightarrow> int" where
  "hour t = (t div us_per_hour) mod 24"

text \<open>\<^verbatim>\<open>timedelta(minutes=m)\<close> and \<^verbatim>\<open>timedelta(days=n)\<close> for integer arguments.\<close>

definition timedelta_us :: "int \<Rightarrow> error + timedelta" where
  "timedelta_us us =
     (if - 999999999 \<le> us div us_per_day \<and> us div us_per_day \<le> 999999999
      then Inr us else Inl OverflowError)"

definition timedelta_minutes :: "int \<Rightarrow> error + timedelta" where
  "timedelta_minutes m = timedelta_us (m * us_per_minute)"

definition timedelta_days :: "int \<Rightarrow> error + timedelta" where
  "timedelta_days n = timedelta_us (n * us_per_day)"

text \<open>\<^verbatim>\<open>t + d\<close> and \<^verbatim>\<open>t - d\<close> on a datetime and a timedelta.\<close>

definition datetime_add :: "datetime \<Rightarrow> timedelta \<Rightarrow> error + datetime" where
  "datetime_add t d =
     (if 0 \<le> t + d \<and> t + d \<le> datetime_max then Inr (t + d) else Inl OverflowError)"

definition datetime_sub :: "datetime \<Rightarrow> timedelta \<Rightarrow> error + datetime" where
  "datetime_sub t d = datetime_add t (- d)"

subsection \<open>Floating point and the random source\<close>

text \<open>
  The generator computes on floats and draws from the global generator of the
  \<^verbatim>\<open>random\<close> module. Neither is interpreted: the float type \<open>'f\<close>, its addition,
  multiplication and comparison, the two literals of the source, and the generator
  (a state \<open>'g\<close> with the calls \<^verbatim>\<open>random.uniform(a, b)\<close> and \<^verbatim>\<open>random.random()\<close>,
  each returning a draw and the next state) are parameters of the model, so every theorem
  holds for the arithmetic and the generator of the interpreter, whatever they round or
  draw.
\<close>

record ('f, 'g) runtime =
  rt_uniform :: "int \<Rightarrow> int \<Rightarrow> 'g \<Rightarrow> 'f \<times> 'g"
  rt_random :: "'g \<Rightarrow> 'f \<times> 'g"
  rt_add :: "'f \<Rightarrow> 'f \<Rightarrow> 'f"
  rt_mul :: "'f \<Rightarrow> 'f \<Rightarrow> 'f"
  rt_gt :: "'f \<Rightarrow> 'f \<Rightarrow> bool"
  rt_098 :: "'f"
  rt_005 :: "'f"

text \<open>
  An instance for evaluation: exact rational arithmetic, and a generator that counts its
  calls and returns the tenths 0, 0.1, ..., 0.9 in turn (scaled into the range for
  \<^verbatim>\<open>uniform\<close>).
\<close>

definition exact_runtime :: "(rat, nat) runtime" where
  "exact_runtime =
     \<lparr> rt_uniform = (\<lambda>a b g. (of_int a + of_int (b - a) * (of_nat (g mod 10) / 10), Suc g)),
       rt_random = (\<lambda>g. (of_nat (g mod 10) / 10, Suc g)),
       rt_add = (\<lambda>x y. x + y),
       rt_mul = (\<lambda>x y. x * y),
       rt_gt = (\<lambda>x y. y < x),
       rt_098 = 49 / 50,
       rt_005 = 1 / 20 \<rparr>"

subsection \<open>Readings and the generator\<close>

text \<open>
  One data point is the dict with the keys \<^verbatim>\<open>id\<close>, \<^verbatim>\<open>timestamp\<close>, \<^verbatim>\<open>voltage\<close>,
  \<^verbatim>\<open>current\<close>, \<^verbatim>\<open>status\<close>. The timestamp is stored as the ISO text of the instant;
  the model keeps the instant the text denotes.
\<close>

record 'f reading =
  rd_id :: string
  rd_timestamp :: datetime
  rd_voltage :: 'f
  rd_current :: 'f
  rd_status :: string

record 'f baseline =
  voltage_base :: 'f
  current_base :: 'f

definition default_sensor_ids :: "string list" where
  "default_sensor_ids = [''sensor-001'', ''sensor-002'', ''sensor-003'']"

text \<open>The first loop: one baseline per sensor id, stored in the dict \<^verbatim>\<open>base_values\<close>.\<close>

fun base_values_loop ::
  "('f, 'g) runtime \<Rightarrow> string list \<Rightarrow> (string \<rightharpoonup> 'f baseline) \<Rightarrow> 'g
     \<Rightarrow> (string \<rightharpoonup> 'f baseline) \<times> 'g" where
  "base_values_loop rt [] bv g = (bv, g)"
| "base_values_loop rt (sid # ids) bv g =
     (let (vb, g1) = rt_uniform rt 110 125 g;
          (cb, g2) = rt_uniform rt 4 8 g1
      in base_values_loop rt ids (bv(sid \<mapsto> \<lparr>voltage_base = vb, current_base = cb\<rparr>)) g2)"

text \<open>The body of the inner loop once the baseline of the sensor has been read.\<close>

definition make_point ::
  "('f, 'g) runtime \<Rightarrow> 'f baseline \<Rightarrow> datetime \<Rightarrow> string \<Rightarrow> 'g \<Rightarrow> 'f reading \<times> 'g" where
  "make_point rt b current_time sensor_id g =
     (let (u, g1) = rt_uniform rt (- 5) 5 g;
          voltage = rt_add rt (voltage_base b) u;
          (w, g2) = rt_uniform rt (- 1) 1 g1;
          current = rt_add rt (current_base b) w;
          voltage = (if 18 \<le> hour current_time \<and> hour current_time \<le> 22
                     then rt_mul rt voltage (rt_098 rt) else voltage);
          (r, g3) = rt_random rt g2
      in (\<lparr>rd_id = sensor_id, rd_timestamp = current_time, rd_voltage = voltage,
           rd_current = current,
           rd_status = (if rt_gt rt r (rt_005 rt) then ''normal'' else ''warning'')\<rparr>, g3))"

text \<open>The inner loop body: the two dict lookups raise \<^verbatim>\<open>KeyError\<close> on a missing key.\<close>

definition data_point ::
  "('f, 'g) runtime \<Rightarrow> (string \<rightharpoonup> 'f baseline) \<Rightarrow> datetime \<Rightarrow> string \<Rightarrow> 'g
     \<Rightarrow> (error + 'f reading) \<times> 'g" where
  "data_point rt bv current_time sensor_id g =
     (case bv sensor_id of
        None \<Rightarrow> (Inl KeyError, g)
      | Some b \<Rightarrow> (let (p, g') = make_point rt b current_time sensor_id g in (Inr p, g')))"

text \<open>The inner loop over the sensor ids, appending to \<^verbatim>\<open>data_points\<close>.\<close>

fun for_sensors ::
  "('f, 'g) runtime \<Rightarrow> (string \<rightharpoonup> 'f baseline) \<Rightarrow> datetime \<Rightarrow> string list
     \<Rightarrow> 'f reading list \<Rightarrow> 'g \<Rightarrow> (error + 'f reading list) \<times> 'g" where
  "for_sensors rt bv current_time [] data_points g = (Inr data_points, g)"
| "for_sensors rt bv current_time (sid # ids) data_points g =
     (case data_point rt bv current_time sid g of
        (Inl e, g') \<Rightarrow> (Inl e, g')
      | (Inr p, g') \<Rightarrow> for_sensors rt bv current_time ids (data_points @ [p]) g')"

text \<open>
  The loop \<^verbatim>\<open>while current_time <= end_date\<close>. It does not return when the interval
  is zero, so its result is an option: \<open>None\<close> is a run that never ends.
\<close>

partial_function (option) while_loop ::
  "('f, 'g) runtime \<Rightarrow> (string \<rightharpoonup> 'f baseline) \<Rightarrow> string list \<Rightarrow> int \<Rightarrow> datetime
     \<Rightarrow> datetime \<Rightarrow> 'f reading list \<Rightarrow> 'g \<Rightarrow> ((error + 'f reading list) \<times> 'g) option" where
  "while_loop rt bv ids interval_minutes end_date current_time data_points g =
     (if current_time \<le> end_date then
        (case for_sensors rt bv current_time ids data_points g of
           (Inl e, g') \<Rightarrow> Some (Inl e, g')
         | (Inr data_points', g') \<Rightarrow>
             (case timedelta_minutes interval_minutes of
                Inl e \<Rightarrow> Some (Inl e, g')
              | Inr d \<Rightarrow>
                  (case datetime_add current_time d of
                     Inl e \<Rightarrow> Some (Inl e, g')
                   | Inr current_time' \<Rightarrow>
                       while_loop rt bv ids interval_minutes end_date current_time'
                         data_points' g')))
      else Some (Inr data_points, g))"

text \<open>
  \<^verbatim>\<open>generate_simulated_data(start_date, end_date, sensor_ids, interval_minutes)\<close>.
  The argument \<open>sensor_ids\<close> is \<open>None\<close> when it is omitted; \<^verbatim>\<open>not sensor_ids\<close> holds
  for \<^verbatim>\<open>None\<close> and for the empty list.
\<close>

definition effective_ids :: "string list option \<Rightarrow> string list" where
  "effective_ids sensor_ids =
     (case sensor_ids of
        None \<Rightarrow> default_sensor_ids
      | Some [] \<Rightarrow> default_sensor_ids
      | Some ids \<Rightarrow> ids)"

definition generate_simulated_data ::
  "('f, 'g) runtime \<Rightarrow> datetime \<Rightarrow> datetime \<Rightarrow> string list option \<Rightarrow> int \<Rightarrow> 'g
     \<Rightarrow> ((error + 'f reading list) \<times> 'g) option" where
  "generate_simulated_data rt start_date end_date sensor_ids interval_minutes g =
     (let ids = effective_ids sensor_ids;
          (base_values, g1) = base_values_loop rt ids Map.empty g
      in while_loop rt base_values ids interval_minutes end_date start_date [] g1)"

declare while_loop.simps [code]

subsection \<open>The three fetch wrappers\<close>

text \<open>
  Each wrapper runs its body inside \<^verbatim>\<open>try\<close> and returns a fixed value from
  \<^verbatim>\<open>except Exception\<close>; the calls to the logger and to \<^verbatim>\<open>st.error\<close> change
  nothing that is modelled. The clock read by \<^verbatim>\<open>datetime.now()\<close> is the argument
  \<open>now\<close>. The body shared by \<^verbatim>\<open>fetch_all_sensor_data\<close> and
  \<^verbatim>\<open>fetch_sensor_data_by_id\<close> generates the last seven days at the default interval.
\<close>

definition last_seven_days ::
  "('f, 'g) runtime \<Rightarrow> string list option \<Rightarrow> datetime \<Rightarrow> 'g
     \<Rightarrow> ((error + 'f reading list) \<times> 'g) option" where
  "last_seven_days rt sensor_ids now g =
     (let end_date = now in
      case timedelta_days 7 of
        Inl e \<Rightarrow> Some (Inl e, g)
      | Inr d \<Rightarrow>
          (case datetime_sub end_date d of
             Inl e \<Rightarrow> Some (Inl e, g)
           | Inr start_date \<Rightarrow> generate_simulated_data rt start_date end_date sensor_ids 15 g))"

text \<open>\<^verbatim>\<open>fetch_all_sensor_data()\<close>: a list; \<^verbatim>\<open>[]\<close> from the handler.\<close>

definition fetch_all_sensor_data ::
  "('f, 'g) runtime \<Rightarrow> datetime \<Rightarrow> 'g \<Rightarrow> ('f reading list \<times> 'g) option" where
  "fetch_all_sensor_data rt now g =
     (case last_seven_days rt None now g of
        None \<Rightarrow> None
      | Some (Inl e, g') \<Rightarrow> Some ([], g')
      | Some (Inr data, g') \<Rightarrow> Some (data, g'))"

text \<open>
  \<^verbatim>\<open>fetch_sensor_data_by_id(sensor_id)\<close>: a list, or \<^verbatim>\<open>None\<close> from the handler
  (the \<open>None\<close> of the inner option).
\<close>

definition fetch_sensor_data_by_id ::
  "('f, 'g) runtime \<Rightarrow> string \<Rightarrow> datetime \<Rightarrow> 'g \<Rightarrow> ('f reading list option \<times> 'g) option" where
  "fetch_sensor_data_by_id rt sensor_id now g =
     (case last_seven_days rt (Some [sensor_id]) now g of
        None \<Rightarrow> None
      | Some (Inl e, g') \<Rightarrow> Some (None, g')
      | Some (Inr data, g') \<Rightarrow> Some (Some data, g'))"

text \<open>
  \<^verbatim>\<open>fetch_sensor_data_in_range(start_date, end_date, sensor_id)\<close>; \<open>sensor_id\<close> is
  \<open>None\<close> when omitted, and the test \<^verbatim>\<open>sensor_id and sensor_id != "All"\<close> fails for
  \<^verbatim>\<open>None\<close>, for the empty string and for \<^verbatim>\<open>"All"\<close>.
\<close>

definition fetch_sensor_data_in_range ::
  "('f, 'g) runtime \<Rightarrow> datetime \<Rightarrow> datetime \<Rightarrow> string option \<Rightarrow> 'g
     \<Rightarrow> ('f reading list \<times> 'g) option" where
  "fetch_sensor_data_in_range rt start_date end_date sensor_id g =
     (case (case sensor_id of
              None \<Rightarrow> generate_simulated_data rt start_date end_date None 15 g
            | Some sid \<Rightarrow>
                if sid \<noteq> [] \<and> sid \<noteq> ''All''
                then generate_simulated_data rt start_date end_date (Some [sid]) 15 g
                else generate_simulated_data rt start_date end_date None 15 g) of
        None \<Rightarrow> None
      | Some (Inl e, g') \<Rightarrow> Some ([], g')
      | Some (Inr data, g') \<Rightarrow> Some (data, g'))"

subsection \<open>Tables and the post-processor\<close>

text \<open>
  A DataFrame built from the data points: the list of its column names and its rows in
  index order. A row carries the five fields of a data point and the \<^verbatim>\<open>power\<close> cell,
  which is absent until the column has been computed. A cell of the column
  \<^verbatim>\<open>timestamp\<close> is the ISO text the generator wrote or, once the column has been
  converted, the pandas timestamp of the same instant.
\<close>

datatype ts_cell = IsoText datetime | Timestamp datetime

fun instant :: "ts_cell \<Rightarrow> datetime" where
  "instant (IsoText t) = t"
| "instant (Timestamp t) = t"

record 'f row =
  row_id :: string
  row_timestamp :: ts_cell
  row_voltage :: 'f
  row_current :: 'f
  row_status :: string
  row_power :: "'f option"

record 'f table =
  tb_columns :: "string list"
  tb_rows :: "'f row list"

text \<open>\<^verbatim>\<open>pd.DataFrame()\<close>, \<^verbatim>\<open>df.empty\<close>, \<^verbatim>\<open>len(df)\<close> and \<^verbatim>\<open>pd.DataFrame(data)\<close>.\<close>

definition empty_table :: "'f table" where
  "empty_table = \<lparr>tb_columns = [], tb_rows = []\<rparr>"

definition df_empty :: "'f table \<Rightarrow> bool" where
  "df_empty df \<longleftrightarrow> tb_columns df = [] \<or> tb_rows df = []"

definition df_len :: "'f table \<Rightarrow> int" where
  "df_len df = int (length (tb_rows df))"

definition row_of_reading :: "'f reading \<Rightarrow> 'f row" where
  "row_of_reading r =
     \<lparr>row_id = rd_id r, row_timestamp = IsoText (rd_timestamp r), row_voltage = rd_voltage r,
      row_current = rd_current r, row_status = rd_status r, row_power = None\<rparr>"

definition DataFrame :: "'f reading list \<Rightarrow> 'f table" where
  "DataFrame data =
     (if data = [] then empty_table
      else \<lparr>tb_columns = [''id'', ''timestamp'', ''voltage'', ''current'', ''status''],
            tb_rows = map row_of_reading data\<rparr>)"

text \<open>
  \<^verbatim>\<open>pd.to_datetime\<close> on the column of ISO texts, as pandas 1 and 2 convert it: to
  timestamps that count nanoseconds from 1970-01-01 in 64 bits, which reach from
  1677-09-21 to 2262-04-11. For a text outside this range the call raises
  \<^verbatim>\<open>OutOfBoundsDatetime\<close> and converts nothing.
\<close>

definition unix_epoch :: datetime where
  "unix_epoch = mk_datetime 1970 1 1 0 0"

definition in_ns_bounds :: "datetime \<Rightarrow> bool" where
  "in_ns_bounds t \<longleftrightarrow>
     - (2 ^ 63 - 1) \<le> (t - unix_epoch) * 1000 \<and> (t - unix_epoch) * 1000 \<le> 2 ^ 63 - 1"

definition to_datetime_cell :: "ts_cell \<Rightarrow> error + ts_cell" where
  "to_datetime_cell c =
     (if in_ns_bounds (instant c) then Inr (Timestamp (instant c)) else Inl OutOfBoundsDatetime)"

fun to_datetime :: "ts_cell list \<Rightarrow> error + ts_cell list" where
  "to_datetime [] = Inr []"
| "to_datetime (c # cs) =
     (case to_datetime_cell c of
        Inl e \<Rightarrow> Inl e
      | Inr c' \<Rightarrow> (case to_datetime cs of Inl e \<Rightarrow> Inl e | Inr cs' \<Rightarrow> Inr (c' # cs')))"

text \<open>
  \<^verbatim>\<open>astype(float)\<close> on a column of floats and \<^verbatim>\<open>astype(str)\<close> on a column of
  strings return the cells they are given; the product of two float columns is the float
  product, row by row. Each has the result type of a call that may raise, as each stands
  in a \<^verbatim>\<open>try\<close> of the source.
\<close>

definition astype_float :: "'f list \<Rightarrow> error + 'f list" where
  "astype_float cells = Inr cells"

definition astype_str :: "string list \<Rightarrow> error + string list" where
  "astype_str cells = Inr cells"

definition mul_columns :: "('f, 'g) runtime \<Rightarrow> 'f list \<Rightarrow> 'f list \<Rightarrow> error + 'f list" where
  "mul_columns rt xs ys = Inr (map2 (rt_mul rt) xs ys)"

text \<open>The assignments \<^verbatim>\<open>df[name] = column\<close>; \<^verbatim>\<open>power\<close> is a new column.\<close>

definition set_timestamp :: "ts_cell list \<Rightarrow> 'f table \<Rightarrow> 'f table" where
  "set_timestamp col df = df\<lparr>tb_rows := map2 (\<lambda>c r. r\<lparr>row_timestamp := c\<rparr>) col (tb_rows df)\<rparr>"

definition set_voltage :: "'f list \<Rightarrow> 'f table \<Rightarrow> 'f table" where
  "set_voltage col df = df\<lparr>tb_rows := map2 (\<lambda>c r. r\<lparr>row_voltage := c\<rparr>) col (tb_rows df)\<rparr>"

definition set_current :: "'f list \<Rightarrow> 'f table \<Rightarrow> 'f table" where
  "set_current col df = df\<lparr>tb_rows := map2 (\<lambda>c r. r\<lparr>row_current := c\<rparr>) col (tb_rows df)\<rparr>"

definition set_id :: "string list \<Rightarrow> 'f table \<Rightarrow> 'f table" where
  "set_id col df = df\<lparr>tb_rows := map2 (\<lambda>c r. r\<lparr>row_id := c\<rparr>) col (tb_rows df)\<rparr>"

definition set_power :: "'f list \<Rightarrow> 'f table \<Rightarrow> 'f table" where
  "set_power col df =
     \<lparr>tb_columns = (if ''power'' \<in> set (tb_columns df) then tb_columns df
                     else tb_columns df @ [''power'']),
      tb_rows = map2 (\<lambda>c r. r\<lparr>row_power := Some c\<rparr>) col (tb_rows df)\<rparr>"

text \<open>
  The five guarded steps of \<^verbatim>\<open>process_sensor_data\<close>, each with its own
  \<^verbatim>\<open>try\<close>: when the call raises, the handler logs and the table stays as it was.
\<close>

definition convert_timestamp :: "'f table \<Rightarrow> 'f table" where
  "convert_timestamp df =
     (if ''timestamp'' \<in> set (tb_columns df) then
        (case to_datetime (map row_timestamp (tb_rows df)) of
           Inl e \<Rightarrow> df
         | Inr col \<Rightarrow> set_timestamp col df)
      else df)"

definition convert_voltage :: "'f table \<Rightarrow> 'f table" where
  "convert_voltage df =
     (if ''voltage'' \<in> set (tb_columns df) then
        (case astype_float (map row_voltage (tb_rows df)) of
           Inl e \<Rightarrow> df
         | Inr col \<Rightarrow> set_voltage col df)
      else df)"

definition convert_current :: "'f table \<Rightarrow> 'f table" where
  "convert_current df =
     (if ''current'' \<in> set (tb_columns df) then
        (case astype_float (map row_current (tb_rows df)) of
           Inl e \<Rightarrow> df
         | Inr col \<Rightarrow> set_current col df)
      else df)"

definition calculate_power :: "('f, 'g) runtime \<Rightarrow> 'f table \<Rightarrow> 'f table" where
  "calculate_power rt df =
     (if ''voltage'' \<in> set (tb_columns df) \<and> ''current'' \<in> set (tb_columns df) then
        (case mul_columns rt (map row_voltage (tb_rows df)) (map row_current (tb_rows df)) of
           Inl e \<Rightarrow> df
         | Inr col \<Rightarrow> set_power col df)
      else df)"

definition convert_id :: "'f table \<Rightarrow> 'f table" where
  "convert_id df =
     (if ''id'' \<in> set (tb_columns df) then
        (case astype_str (map row_id (tb_rows df)) of
           Inl e \<Rightarrow> df
         | Inr col \<Rightarrow> set_id col df)
      else df)"

text \<open>
  The body of the outer \<^verbatim>\<open>try\<close> of \<^verbatim>\<open>process_sensor_data(data)\<close>, and the function
  with its outer handler, which returns \<^verbatim>\<open>pd.DataFrame()\<close> for an exception of the
  body.
\<close>

definition process_body :: "('f, 'g) runtime \<Rightarrow> 'f reading list \<Rightarrow> error + 'f table" where
  "process_body rt data =
     (if data = [] then Inr empty_table
      else
        (let df = DataFrame data in
         if df_empty df then Inr df
         else
           (let df = convert_timestamp df;
                df = convert_voltage df;
                df = convert_current df;
                df = calculate_power rt df;
                df = convert_id df
            in Inr df)))"

definition process_sensor_data :: "('f, 'g) runtime \<Rightarrow> 'f reading list \<Rightarrow> 'f table" where
  "process_sensor_data rt data =
     (case process_body rt data of
        Inl e \<Rightarrow> empty_table
      | Inr df \<Rightarrow> df)"

subsection \<open>Session state, playback cursor and rolling buffer\<close>

text \<open>
  The keys of \<^verbatim>\<open>st.session_state\<close> the program uses; a key that is not in the session
  state is \<open>None\<close>.
\<close>

record 'f session =
  sensor_data :: "'f table option"
  last_refresh :: "datetime option"
  simulation_index :: "int option"
  real_time_buffer :: "'f table option"

text \<open>
  Positional slices \<^verbatim>\<open>df.iloc[start:stop]\<close> and \<^verbatim>\<open>df.iloc[start:]\<close>: a negative
  bound counts from the end, and both bounds are clipped to the length.
\<close>

definition clip_bound :: "int \<Rightarrow> int \<Rightarrow> int" where
  "clip_bound n i = (if i < 0 then max (i + n) 0 else min i n)"

definition slice_rows :: "int \<Rightarrow> int \<Rightarrow> 'a list \<Rightarrow> 'a list" where
  "slice_rows start stop xs =
     (let n = int (length xs); lo = clip_bound n start; hi = clip_bound n stop
      in take (nat (hi - lo)) (drop (nat lo) xs))"

definition slice_rows_from :: "int \<Rightarrow> 'a list \<Rightarrow> 'a list" where
  "slice_rows_from start xs = drop (nat (clip_bound (int (length xs)) start)) xs"

definition iloc :: "int \<Rightarrow> int \<Rightarrow> 'f table \<Rightarrow> 'f table" where
  "iloc start stop df = df\<lparr>tb_rows := slice_rows start stop (tb_rows df)\<rparr>"

definition iloc_from :: "int \<Rightarrow> 'f table \<Rightarrow> 'f table" where
  "iloc_from start df = df\<lparr>tb_rows := slice_rows_from start (tb_rows df)\<rparr>"

text \<open>
  \<^verbatim>\<open>df.sort_values('timestamp')\<close>. pandas sorts with the quicksort of numpy unless a
  \<^verbatim>\<open>kind\<close> is given, and that sort is not stable: the order in which rows of equal
  timestamp come out is not fixed. The sort of the rows is therefore a parameter
  \<open>srt\<close> of the model, and \<open>sorts_by_timestamp\<close> is all the theorems assume of it: the
  result is a rearrangement of the rows in ascending order of their instants (ISO texts
  of one format compare as the instants they denote).
\<close>

definition sort_values :: "('f row list \<Rightarrow> 'f row list) \<Rightarrow> 'f table \<Rightarrow> 'f table" where
  "sort_values srt df = df\<lparr>tb_rows := srt (tb_rows df)\<rparr>"

definition sorts_by_timestamp :: "('f row list \<Rightarrow> 'f row list) \<Rightarrow> bool" where
  "sorts_by_timestamp srt \<longleftrightarrow>
     (\<forall>xs. mset (srt xs) = mset xs \<and> sorted (map (\<lambda>r. instant (row_timestamp r)) (srt xs)))"

text \<open>
  \<^verbatim>\<open>simulate_real_time_data(df, simulation_speed)\<close> returns the slice, or \<^verbatim>\<open>None\<close>
  from the bare \<^verbatim>\<open>return\<close> of its guard, and the session state it leaves. The length
  in the remainder is that of the sorted table, which has the rows of a table that is
  not empty.
\<close>

definition simulate_real_time_data ::
  "('f row list \<Rightarrow> 'f row list) \<Rightarrow> 'f table \<Rightarrow> int \<Rightarrow> 'f session
     \<Rightarrow> 'f table option \<times> 'f session" where
  "simulate_real_time_data srt df simulation_speed ss =
     (if df_empty df \<or> ''timestamp'' \<notin> set (tb_columns df) then (None, ss)
      else
        (let df = sort_values srt df;
             ss = (case simulation_index ss of
                     None \<Rightarrow> ss\<lparr>simulation_index := Some 0\<rparr>
                   | Some i \<Rightarrow> ss);
             index = (case simulation_index ss of None \<Rightarrow> 0 | Some i \<Rightarrow> i);
             index = (if index \<ge> df_len df then 0 else index);
             data_point = iloc index (index + simulation_speed) df;
             ss = ss\<lparr>simulation_index := Some ((index + simulation_speed) mod df_len df)\<rparr>
         in (Some data_point, ss)))"

text \<open>\<^verbatim>\<open>pd.concat([a, b])\<close>: the rows of \<open>a\<close>, then those of \<open>b\<close>; the union of the columns.\<close>

definition concat_tables :: "'f table \<Rightarrow> 'f table \<Rightarrow> 'f table" where
  "concat_tables a b =
     \<lparr>tb_columns = tb_columns a @ filter (\<lambda>c. c \<notin> set (tb_columns a)) (tb_columns b),
      tb_rows = tb_rows a @ tb_rows b\<rparr>"

definition MAX_BUFFER_SIZE :: int where
  "MAX_BUFFER_SIZE = 100"

text \<open>\<^verbatim>\<open>update_real_time_buffer(new_data)\<close>.\<close>

definition update_real_time_buffer :: "'f table \<Rightarrow> 'f session \<Rightarrow> 'f session" where
  "update_real_time_buffer new_data ss =
     (case real_time_buffer ss of
        None \<Rightarrow> ss\<lparr>real_time_buffer := Some new_data\<rparr>
      | Some old \<Rightarrow>
          (let buffer = concat_tables old new_data;
               buffer = (if df_len buffer > MAX_BUFFER_SIZE
                         then iloc_from (- MAX_BUFFER_SIZE) buffer else buffer)
           in ss\<lparr>real_time_buffer := Some buffer\<rparr>))"

text \<open>A sequence of calls of \<^verbatim>\<open>update_real_time_buffer\<close>, one per slice, in order.\<close>

definition append_all :: "'f table list \<Rightarrow> 'f session \<Rightarrow> 'f session" where
  "append_all slices ss = fold update_real_time_buffer slices ss"

subsection \<open>The page blocks that store a new batch\<close>

text \<open>
  The handler of the button \<^verbatim>\<open>Fetch Data\<close>. Its arguments are the widget values
  (\<open>selected_sensor_id\<close>, the two combined datetimes) and the clock; it updates the
  session state. \<^verbatim>\<open>fetch_sensor_data_in_range\<close> and \<^verbatim>\<open>process_sensor_data\<close>
  do not raise, so the handler's own \<^verbatim>\<open>except\<close> is never entered.
\<close>

definition fetch_data_button ::
  "('f, 'g) runtime \<Rightarrow> string \<Rightarrow> datetime \<Rightarrow> datetime \<Rightarrow> datetime \<Rightarrow> 'f session \<Rightarrow> 'g
     \<Rightarrow> ('f session \<times> 'g) option" where
  "fetch_data_button rt selected_sensor_id start_datetime end_datetime now ss g =
     (case (if selected_sensor_id = ''All''
            then fetch_sensor_data_in_range rt start_datetime end_datetime None g
            else fetch_sensor_data_in_range rt start_datetime end_datetime
                   (Some selected_sensor_id) g) of
        None \<Rightarrow> None
      | Some (sensor_data', g') \<Rightarrow>
          (let df = process_sensor_data rt sensor_data';
               ss = ss\<lparr>sensor_data := Some df, last_refresh := Some now\<rparr>;
               ss = (if simulation_index ss \<noteq> None then ss\<lparr>simulation_index := Some 0\<rparr>
                     else ss);
               ss = (if real_time_buffer ss \<noteq> None then ss\<lparr>real_time_buffer := None\<rparr>
                     else ss)
           in Some (ss, g')))"

text \<open>
  The block \<^verbatim>\<open>if auto_refresh and not simulation_mode\<close>. The elapsed time is compared
  in microseconds: \<^verbatim>\<open>total_seconds() > refresh_interval\<close> for a whole number of seconds.
\<close>

definition auto_refresh_block ::
  "('f, 'g) runtime \<Rightarrow> bool \<Rightarrow> bool \<Rightarrow> int \<Rightarrow> string \<Rightarrow> datetime \<Rightarrow> datetime \<Rightarrow> datetime
     \<Rightarrow> 'f session \<Rightarrow> 'g \<Rightarrow> ('f session \<times> 'g) option" where
  "auto_refresh_block rt auto_refresh simulation_mode refresh_interval selected_sensor_id
       start_datetime end_datetime now ss g =
     (if auto_refresh \<and> \<not> simulation_mode then
        (case last_refresh ss of
           None \<Rightarrow> Some (ss, g)
         | Some refreshed \<Rightarrow>
             if now - refreshed > refresh_interval * 1000000 then
               (case (if selected_sensor_id = ''All''
                      then fetch_sensor_data_in_range rt start_datetime end_datetime None g
                      else fetch_sensor_data_in_range rt start_datetime end_datetime
                             (Some selected_sensor_id) g) of
                  None \<Rightarrow> None
                | Some (sensor_data', g') \<Rightarrow>
                    (let df = process_sensor_data rt sensor_data'
                     in Some (ss\<lparr>sensor_data := Some df, last_refresh := Some now\<rparr>, g')))
             else Some (ss, g))
      else Some (ss, g))"

text \<open>
  The block \<^verbatim>\<open>if simulation_mode and ...\<close>: one tick of the playback. A slice that is
  \<^verbatim>\<open>None\<close> or empty is not appended.
\<close>

definition simulation_tick ::
  "('f row list \<Rightarrow> 'f row list) \<Rightarrow> int \<Rightarrow> datetime \<Rightarrow> 'f session \<Rightarrow> 'f session" where
  "simulation_tick srt simulation_speed now ss =
     (case sensor_data ss of
        None \<Rightarrow> ss
      | Some base_df \<Rightarrow>
          if df_empty base_df then ss
          else
            (case simulate_real_time_data srt base_df simulation_speed ss of
               (None, ss') \<Rightarrow> ss'
             | (Some new_data_point, ss') \<Rightarrow>
                 if df_empty new_data_point then ss'
                 else (update_real_time_buffer new_data_point ss')\<lparr>last_refresh := Some now\<rparr>))"

subsection \<open>Functions used to state the properties\<close>

text \<open>The generator state after the three draws of one data point.\<close>

definition adv :: "('f, 'g) runtime \<Rightarrow> 'g \<Rightarrow> 'g" where
  "adv rt g = snd (rt_random rt (snd (rt_uniform rt (- 1) 1 (snd (rt_uniform rt (- 5) 5 g)))))"

text \<open>The baselines of a call and the generator state once they are drawn.\<close>

definition baselines ::
  "('f, 'g) runtime \<Rightarrow> string list option \<Rightarrow> 'g \<Rightarrow> (string \<rightharpoonup> 'f baseline)" where
  "baselines rt sensor_ids g = fst (base_values_loop rt (effective_ids sensor_ids) Map.empty g)"

definition rng_after_baselines :: "('f, 'g) runtime \<Rightarrow> string list option \<Rightarrow> 'g \<Rightarrow> 'g" where
  "rng_after_baselines rt sensor_ids g =
     snd (base_values_loop rt (effective_ids sensor_ids) Map.empty g)"

text \<open>The readings of one pass over the sensors, and of \<open>n\<close> passes \<open>d\<close> apart.\<close>

fun pass_points ::
  "('f, 'g) runtime \<Rightarrow> (string \<rightharpoonup> 'f baseline) \<Rightarrow> datetime \<Rightarrow> string list \<Rightarrow> 'g
     \<Rightarrow> 'f reading list" where
  "pass_points rt bv t [] g = []"
| "pass_points rt bv t (sid # ids) g =
     fst (make_point rt (the (bv sid)) t sid g) # pass_points rt bv t ids (adv rt g)"

fun series ::
  "('f, 'g) runtime \<Rightarrow> (string \<rightharpoonup> 'f baseline) \<Rightarrow> string list \<Rightarrow> timedelta \<Rightarrow> nat
     \<Rightarrow> datetime \<Rightarrow> 'g \<Rightarrow> 'f reading list" where
  "series rt bv ids d 0 t g = []"
| "series rt bv ids d (Suc n) t g =
     pass_points rt bv t ids g @ series rt bv ids d n (t + d) ((adv rt ^^ length ids) g)"

text \<open>
  The number of sample instants \<open>start, start + interval, ...\<close> up to \<open>end\<close>, and the
  instants themselves.
\<close>

definition sample_count :: "datetime \<Rightarrow> datetime \<Rightarrow> int \<Rightarrow> nat" where
  "sample_count start_date end_date interval_minutes =
     nat ((end_date - start_date) div (interval_minutes * us_per_minute)) + 1"

definition sample_instants :: "datetime \<Rightarrow> timedelta \<Rightarrow> nat \<Rightarrow> datetime list" where
  "sample_instants t d n = map (\<lambda>k. t + int k * d) [0..<n]"

text \<open>
  The count as the specification words it, with the quotient rounded up:
  \<open>ceil((end - start) / interval) + 1\<close>.
\<close>

definition spec_count :: "datetime \<Rightarrow> datetime \<Rightarrow> int \<Rightarrow> nat" where
  "spec_count start_date end_date interval_minutes =
     nat \<lceil>(of_int (end_date - start_date) :: rat) / of_int (interval_minutes * us_per_minute)\<rceil>
       + 1"

text \<open>
  The voltage of a reading \<open>r\<close> whose three draws start in the generator state \<open>gk\<close>,
  and the invariant of the loops: the \<open>k\<close>-th data point so far was drawn from the
  \<open>k\<close>-th state after \<open>g1\<close>.
\<close>

definition voltage_ok ::
  "('f, 'g) runtime \<Rightarrow> (string \<rightharpoonup> 'f baseline) \<Rightarrow> 'g \<Rightarrow> 'f reading \<Rightarrow> bool" where
  "voltage_ok rt bv gk r \<longleftrightarrow>
     (\<exists>b. bv (rd_id r) = Some b \<and>
        rd_voltage r =
          (if 18 \<le> hour (rd_timestamp r) \<and> hour (rd_timestamp r) \<le> 22
           then rt_mul rt (rt_add rt (voltage_base b) (fst (rt_uniform rt (- 5) 5 gk))) (rt_098 rt)
           else rt_add rt (voltage_base b) (fst (rt_uniform rt (- 5) 5 gk))))"

definition trace_ok ::
  "('f, 'g) runtime \<Rightarrow> (string \<rightharpoonup> 'f baseline) \<Rightarrow> 'g \<Rightarrow> 'f reading list \<Rightarrow> 'g \<Rightarrow> bool" where
  "trace_ok rt bv g1 acc g \<longleftrightarrow>
     g = (adv rt ^^ length acc) g1 \<and>
     (\<forall>k<length acc. voltage_ok rt bv ((adv rt ^^ k) g1) (acc ! k))"

text \<open>The last \<open>n\<close> elements of a list.\<close>

definition last_n :: "nat \<Rightarrow> 'a list \<Rightarrow> 'a list" where
  "last_n n xs = drop (length xs - n) xs"

text \<open>The cursor a session holds: a missing \<^verbatim>\<open>simulation_index\<close> is initialised to 0.\<close>

definition cursor_of :: "'f session \<Rightarrow> int" where
  "cursor_of ss = (case simulation_index ss of None \<Rightarrow> 0 | Some i \<Rightarrow> i)"

text \<open>
  Data for evaluation: a processed row of sensor \<open>s1\<close> with timestamp \<open>k\<close>, the batch
  of the rows \<open>lo, ..., hi - 1\<close>, and the session state of a fresh session.
\<close>

definition sample_row :: "nat \<Rightarrow> rat row" where
  "sample_row k =
     \<lparr>row_id = ''s1'', row_timestamp = Timestamp (int k), row_voltage = 120, row_current = 5,
      row_status = ''normal'', row_power = Some 600\<rparr>"

definition sample_table :: "nat \<Rightarrow> nat \<Rightarrow> rat table" where
  "sample_table lo hi =
     \<lparr>tb_columns = [''id'', ''timestamp'', ''voltage'', ''current'', ''status'', ''power''],
      tb_rows = map sample_row [lo..<hi]\<rparr>"

definition fresh_session :: "rat session" where
  "fresh_session =
     \<lparr>sensor_data = None, last_refresh = None, simulation_index = None,
      real_time_buffer = None\<rparr>"

text \<open>
  A session in the middle of a playback: a cached batch of 100 rows refreshed at
  2024-01-01T00:00, the cursor at 5, and the five rows played so far in the buffer.
\<close>

definition playing_session :: "rat session" where
  "playing_session =
     \<lparr>sensor_data = Some (sample_table 0 100),
      last_refresh = Some (mk_datetime 2024 1 1 0 0),
      simulation_index = Some 5,
      real_time_buffer = Some (sample_table 0 5)\<rparr>"

text \<open>What a page block leaves of the playback state, and the batch it leaves.\<close>

definition playback_of ::
  "('f session \<times> 'g) option \<Rightarrow> (int option \<times> 'f table option) option" where
  "playback_of result =
     (case result of
        None \<Rightarrow> None
      | Some (ss, g) \<Rightarrow> Some (simulation_index ss, real_time_buffer ss))"

definition batch_of :: "('f session \<times> 'g) option \<Rightarrow> 'f table option option" where
  "batch_of result = (case result of None \<Rightarrow> None | Some (ss, g) \<Rightarrow> Some (sensor_data ss))"

text \<open>
  A sort that is not stable: it orders by instant and returns rows of equal instant in
  the reverse of their order in the batch. And a batch with ties: the three default
  sensors at each of the instants 0 and 1.
\<close>

definition tie_reversing_sort :: "'f row list \<Rightarrow> 'f row list" where
  "tie_reversing_sort xs = rev (sort_key (\<lambda>r. - instant (row_timestamp r)) xs)"

definition tied_row :: "string \<Rightarrow> nat \<Rightarrow> rat row" where
  "tied_row sid k =
     \<lparr>row_id = sid, row_timestamp = Timestamp (int k), row_voltage = 120, row_current = 5,
      row_status = ''normal'', row_power = Some 600\<rparr>"

definition tied_table :: "rat table" where
  "tied_table =
     \<lparr>tb_columns = [''id'', ''timestamp'', ''voltage'', ''current'', ''status'', ''power''],
      tb_rows = [tied_row ''sensor-001'' 0, tied_row ''sensor-002'' 0, tied_row ''sensor-003'' 0,
                 tied_row ''sensor-001'' 1, tied_row ''sensor-002'' 1, tied_row ''sensor-003'' 1]\<rparr>"

section \<open>Properties of the generator\<close>

subsection \<open>The loops\<close>

lemma make_point_snd: "snd (make_point rt b t s g) = adv rt g"
  by (simp add: make_point_def adv_def Let_def split: prod.splits)

lemma make_point_id: "rd_id (fst (make_point rt b t s g)) = s"
  by (simp add: make_point_def Let_def split: prod.splits)

lemma make_point_timestamp: "rd_timestamp (fst (make_point rt b t s g)) = t"
  by (simp add: make_point_def Let_def split: prod.splits)

lemma make_point_voltage:
  "rd_voltage (fst (make_point rt b t s g)) =
     (if 18 \<le> hour t \<and> hour t \<le> 22
      then rt_mul rt (rt_add rt (voltage_base b) (fst (rt_uniform rt (- 5) 5 g))) (rt_098 rt)
      else rt_add rt (voltage_base b) (fst (rt_uniform rt (- 5) 5 g)))"
  by (simp add: make_point_def Let_def split: prod.splits)

lemma data_point_Some:
  "bv s = Some b \<Longrightarrow> data_point rt bv t s g = (Inr (fst (make_point rt b t s g)), adv rt g)"
  using make_point_snd [of rt b t s g] by (cases "make_point rt b t s g") (simp add: data_point_def)

lemma dom_base_values_loop:
  "dom (fst (base_values_loop rt ids bv g)) = dom bv \<union> set ids"
  by (induction ids arbitrary: bv g) (auto simp: Let_def split: prod.splits)

lemma for_sensors_runs:
  "set ids \<subseteq> dom bv \<Longrightarrow>
   for_sensors rt bv t ids acc g = (Inr (acc @ pass_points rt bv t ids g), (adv rt ^^ length ids) g)"
proof (induction ids arbitrary: acc g)
  case Nil
  then show ?case by simp
next
  case (Cons s ids)
  then obtain b where b: "bv s = Some b" by auto
  from Cons.prems have "set ids \<subseteq> dom bv" by simp
  from Cons.IH [OF this] show ?case
    by (simp add: data_point_Some [of bv s b] b funpow_swap1)
qed

lemma while_loop_runs:
  assumes "0 < d" and "timedelta_minutes iv = Inr d" and "set ids \<subseteq> dom bv"
  shows "0 \<le> t \<Longrightarrow> t + int n * d \<le> datetime_max \<Longrightarrow> end_date < t + int n * d \<Longrightarrow>
         (n = 0 \<or> t + (int n - 1) * d \<le> end_date) \<Longrightarrow>
         while_loop rt bv ids iv end_date t acc g =
           Some (Inr (acc @ series rt bv ids d n t g), (adv rt ^^ (n * length ids)) g)"
proof (induction n arbitrary: t acc g)
  case 0
  then show ?case by (subst while_loop.simps) simp
next
  case (Suc n)
  have nd: "0 \<le> int n * d"
    using assms(1) by simp
  have exp: "int (Suc n) * d = int n * d + d"
    by (simp add: algebra_simps)
  have prev: "t + int n * d \<le> end_date"
    using Suc.prems(4) by (simp add: algebra_simps)
  from prev nd have le: "t \<le> end_date"
    by linarith
  have "0 \<le> t + d" "t + d \<le> datetime_max"
    using Suc.prems(1,2) nd assms(1) unfolding exp by linarith+
  then have step: "datetime_add t d = Inr (t + d)"
    by (simp add: datetime_add_def)
  have rest: "while_loop rt bv ids iv end_date (t + d) acc' g' =
      Some (Inr (acc' @ series rt bv ids d n (t + d) g'), (adv rt ^^ (n * length ids)) g')"
    for acc' g'
  proof (rule Suc.IH)
    show "0 \<le> t + d" by fact
    show "t + d + int n * d \<le> datetime_max"
      using Suc.prems(2) unfolding exp by linarith
    show "end_date < t + d + int n * d"
      using Suc.prems(3) unfolding exp by linarith
    show "n = 0 \<or> t + d + (int n - 1) * d \<le> end_date"
      using prev by (simp add: algebra_simps)
  qed
  have pow: "(adv rt ^^ (Suc n * length ids)) g =
      (adv rt ^^ (n * length ids)) ((adv rt ^^ length ids) g)"
  proof -
    have "Suc n * length ids = n * length ids + length ids"
      by simp
    then show ?thesis
      by (simp only: funpow_add o_apply)
  qed
  show ?case
    unfolding pow
    by (subst while_loop.simps)
       (simp add: le for_sensors_runs [OF assms(3)] assms(2) step rest)
qed

lemma pass_points_proj:
  "map (\<lambda>r. (rd_timestamp r, rd_id r)) (pass_points rt bv t ids g) = map (Pair t) ids"
  by (induction ids arbitrary: g) (simp_all add: make_point_id make_point_timestamp)

lemma sample_instants_0: "sample_instants t d 0 = []"
  by (simp add: sample_instants_def)

lemma sample_instants_Suc: "sample_instants t d (Suc n) = t # sample_instants (t + d) d n"
  by (simp add: sample_instants_def map_upt_Suc algebra_simps del: upt_Suc)

lemma series_proj:
  "map (\<lambda>r. (rd_timestamp r, rd_id r)) (series rt bv ids d n t g) =
     List.product (sample_instants t d n) ids"
  by (induction n arbitrary: t g) (simp_all add: sample_instants_0 sample_instants_Suc pass_points_proj)

lemma sorted_sample_instants: "0 \<le> d \<Longrightarrow> sorted (sample_instants t d n)"
proof (induction n arbitrary: t)
  case 0
  then show ?case by (simp add: sample_instants_0)
next
  case (Suc n)
  have "t \<le> x" if "x \<in> set (sample_instants (t + d) d n)" for x
  proof -
    from that obtain k where "x = t + d + int k * d"
      by (auto simp: sample_instants_def)
    moreover have "0 \<le> int k * d" using Suc.prems by simp
    ultimately show ?thesis using Suc.prems by linarith
  qed
  with Suc show ?case by (auto simp: sample_instants_Suc)
qed

lemma sorted_fst_product: "sorted xs \<Longrightarrow> sorted (map fst (List.product xs ys))"
  by (induction xs) (auto simp: sorted_append o_def map_replicate_const)

lemma for_sensors_trace:
  "trace_ok rt bv g1 acc g \<Longrightarrow> for_sensors rt bv t ids acc g = (Inr acc', g') \<Longrightarrow>
   trace_ok rt bv g1 acc' g'"
proof (induction ids arbitrary: acc g)
  case Nil
  then show ?case by simp
next
  case (Cons s ids)
  show ?case
  proof (cases "bv s")
    case None
    with Cons.prems(2) show ?thesis by (simp add: data_point_def)
  next
    case (Some b)
    let ?p = "fst (make_point rt b t s g)"
    from Cons.prems(2) have run: "for_sensors rt bv t ids (acc @ [?p]) (adv rt g) = (Inr acc', g')"
      by (simp add: data_point_Some [of bv s b] Some)
    have "voltage_ok rt bv g ?p"
      unfolding voltage_ok_def
      by (rule exI [of _ b]) (simp add: make_point_id make_point_timestamp make_point_voltage Some)
    with Cons.prems(1) have "trace_ok rt bv g1 (acc @ [?p]) (adv rt g)"
      by (auto simp: trace_ok_def nth_append less_Suc_eq)
    from Cons.IH [OF this run] show ?thesis .
  qed
qed

lemma while_loop_trace_aux:
  assumes "while_loop rt bv ids iv end_date t acc g = Some y"
  shows "\<forall>rs g'. y = (Inr rs, g') \<longrightarrow> trace_ok rt bv g1 acc g \<longrightarrow> trace_ok rt bv g1 rs g'"
proof (rule while_loop.raw_induct [where P = "\<lambda>rt bv ids iv end_date t acc g y.
        \<forall>rs g'. y = (Inr rs, g') \<longrightarrow> trace_ok rt bv g1 acc g \<longrightarrow> trace_ok rt bv g1 rs g'",
        OF _ assms], goal_cases)
  case (1 loop rt bv ids iv end_date t acc g y)
  show ?case
  proof (intro allI impI)
    fix rs g'
    assume y: "y = (Inr rs, g')" and inv: "trace_ok rt bv g1 acc g"
    show "trace_ok rt bv g1 rs g'"
    proof (cases "t \<le> end_date")
      case False
      with 1(2) y inv show ?thesis by simp
    next
      case True
      obtain res g2 where pass: "for_sensors rt bv t ids acc g = (res, g2)"
        by (cases "for_sensors rt bv t ids acc g")
      show ?thesis
      proof (cases res)
        case (Inl e)
        with 1(2) True pass y show ?thesis by simp
      next
        case (Inr acc2)
        from for_sensors_trace [OF inv pass [unfolded Inr]]
        have inv2: "trace_ok rt bv g1 acc2 g2" .
        show ?thesis
        proof (cases "timedelta_minutes iv")
          case (Inl e)
          with 1(2) True pass Inr y show ?thesis by simp
        next
          case d: (Inr d)
          show ?thesis
          proof (cases "datetime_add t d")
            case (Inl e)
            with 1(2) True pass Inr d y show ?thesis by simp
          next
            case t': (Inr t')
            from 1(2) True pass Inr d t' have "loop rt bv ids iv end_date t' acc2 g2 = Some y"
              by simp
            from 1(1) [OF this] have
              "y = (Inr rs, g') \<longrightarrow> trace_ok rt bv g1 acc2 g2 \<longrightarrow> trace_ok rt bv g1 rs g'"
              by (elim allE)
            with y inv2 show ?thesis by (elim impE)
          qed
        qed
      qed
    qed
  qed
qed

lemma while_loop_trace:
  "while_loop rt bv ids iv end_date t acc g = Some (Inr rs, g') \<Longrightarrow>
   trace_ok rt bv g1 acc g \<Longrightarrow> trace_ok rt bv g1 rs g'"
  using while_loop_trace_aux [of rt bv ids iv end_date t acc g "(Inr rs, g')" g1] by simp

lemma timedelta_minutes_ok:
  assumes "0 < iv" and "iv * us_per_minute \<le> datetime_max"
  shows "timedelta_minutes iv = Inr (iv * us_per_minute)"
proof -
  define d where "d = iv * us_per_minute"
  have "0 < d" using assms(1) by (simp add: d_def us_per_minute_def)
  moreover have "d \<le> 315537897599999999"
    using assms(2) by (simp add: d_def datetime_max_def us_per_day_def)
  ultimately have "- 999999999 \<le> d div 86400000000 \<and> d div 86400000000 \<le> 999999999"
    by linarith
  then show ?thesis
    by (simp add: timedelta_minutes_def timedelta_us_def us_per_day_def d_def)
qed

lemma sample_count_bounds:
  assumes "s \<le> e" and "0 < d"
  shows "s + (int (nat ((e - s) div d) + 1) - 1) * d \<le> e"
    and "e < s + int (nat ((e - s) div d) + 1) * d"
proof -
  define q where "q = (e - s) div d"
  have q0: "0 \<le> q" using assms by (simp add: q_def pos_imp_zdiv_nonneg_iff)
  have eq: "q * d + (e - s) mod d = e - s" by (simp add: q_def)
  have m0: "0 \<le> (e - s) mod d" and m1: "(e - s) mod d < d"
    using assms(2) by simp_all
  have n: "int (nat q + 1) = q + 1" using q0 by simp
  have exp: "(q + 1) * d = q * d + d" by (simp add: algebra_simps)
  show "s + (int (nat ((e - s) div d) + 1) - 1) * d \<le> e"
    unfolding q_def [symmetric] n using eq m0 by simp
  show "e < s + int (nat ((e - s) div d) + 1) * d"
    unfolding q_def [symmetric] n exp using eq m1 by linarith
qed

lemma generate_runs:
  assumes "start_date \<le> end_date" and "0 < iv" and "valid_datetime start_date"
    and "start_date + int (sample_count start_date end_date iv) * (iv * us_per_minute) \<le> datetime_max"
  shows "generate_simulated_data rt start_date end_date sensor_ids iv g =
     Some (Inr (series rt (baselines rt sensor_ids g) (effective_ids sensor_ids)
                  (iv * us_per_minute) (sample_count start_date end_date iv) start_date
                  (rng_after_baselines rt sensor_ids g)),
           (adv rt ^^ (sample_count start_date end_date iv * length (effective_ids sensor_ids)))
             (rng_after_baselines rt sensor_ids g))"
proof -
  define d where "d = iv * us_per_minute"
  define n where "n = sample_count start_date end_date iv"
  have d0: "0 < d" using assms(2) by (simp add: d_def us_per_minute_def)
  have s0: "0 \<le> start_date" using assms(3) by (simp add: valid_datetime_def)
  have n1: "1 \<le> int n" by (simp add: n_def sample_count_def)
  have "d * 1 \<le> d * int n" using d0 n1 by (intro mult_left_mono) simp_all
  then have "d \<le> int n * d" by (simp add: mult.commute)
  with assms(4) s0 have "d \<le> datetime_max" unfolding d_def n_def by linarith
  then have td: "timedelta_minutes iv = Inr d"
    unfolding d_def using assms(2) by (rule timedelta_minutes_ok [rotated])
  have ids: "set (effective_ids sensor_ids) \<subseteq> dom (baselines rt sensor_ids g)"
    by (simp add: baselines_def dom_base_values_loop)
  have upper: "end_date < start_date + int n * d"
    and lower: "n = 0 \<or> start_date + (int n - 1) * d \<le> end_date"
    using sample_count_bounds [OF assms(1) d0] by (simp_all add: n_def sample_count_def d_def)
  have top: "start_date + int n * d \<le> datetime_max"
    using assms(4) by (simp add: n_def d_def)
  have "while_loop rt (baselines rt sensor_ids g) (effective_ids sensor_ids) iv end_date
          start_date [] (rng_after_baselines rt sensor_ids g) =
        Some (Inr ([] @ series rt (baselines rt sensor_ids g) (effective_ids sensor_ids) d n
                start_date (rng_after_baselines rt sensor_ids g)),
              (adv rt ^^ (n * length (effective_ids sensor_ids)))
                (rng_after_baselines rt sensor_ids g))"
    by (rule while_loop_runs [OF d0 td ids s0 top upper lower])
  then show ?thesis
    by (simp add: generate_simulated_data_def baselines_def rng_after_baselines_def d_def n_def
          Let_def case_prod_beta)
qed

lemma length_series:
  "length (series rt bv ids d n t g) = length ids * n"
proof -
  have "length (map (\<lambda>r. (rd_timestamp r, rd_id r)) (series rt bv ids d n t g)) =
        length (List.product (sample_instants t d n) ids)"
    by (simp only: series_proj)
  then show ?thesis by (simp add: sample_instants_def mult.commute)
qed

lemma product_singleton: "List.product xs [y] = map (\<lambda>x. (x, y)) xs"
  by (induction xs) simp_all

lemma effective_ids_Some: "ids \<noteq> [] \<Longrightarrow> effective_ids (Some ids) = ids"
  by (cases ids) (simp_all add: effective_ids_def)

lemma effective_ids_empty: "effective_ids (Some []) = default_sensor_ids"
  by (simp add: effective_ids_def)

lemma effective_ids_None: "effective_ids None = default_sensor_ids"
  by (simp add: effective_ids_def)

subsection \<open>Number of readings for one sensor\<close>

text \<open>
  Claim C1, as the code has it. For one sensor, \<open>start \<le> end\<close> and a positive interval,
  the call returns \<open>floor((end - start) / interval) + 1\<close> readings, one at each instant
  \<open>start + k * interval\<close>, provided the instant after the last sample is still a datetime
  of the library: the loop adds the interval once more before it tests \<open>current_time\<close>
  against \<open>end_date\<close>.
\<close>

theorem single_sensor_reading_count:
  assumes "start_date \<le> end_date" and "0 < iv" and "valid_datetime start_date"
    and "start_date + int (sample_count start_date end_date iv) * (iv * us_per_minute) \<le> datetime_max"
  shows "\<exists>rs g'. generate_simulated_data rt start_date end_date (Some [e]) iv g = Some (Inr rs, g') \<and>
           length rs = nat ((end_date - start_date) div (iv * us_per_minute)) + 1 \<and>
           map rd_timestamp rs = sample_instants start_date (iv * us_per_minute) (length rs) \<and>
           map rd_id rs = replicate (length rs) e"
proof -
  let ?n = "sample_count start_date end_date iv"
  let ?rs = "series rt (baselines rt (Some [e]) g) [e] (iv * us_per_minute) ?n start_date
               (rng_after_baselines rt (Some [e]) g)"
  have run: "generate_simulated_data rt start_date end_date (Some [e]) iv g =
      Some (Inr ?rs, (adv rt ^^ (?n * length [e])) (rng_after_baselines rt (Some [e]) g))"
    using generate_runs [OF assms, of rt "Some [e]" g] by (simp add: effective_ids_Some)
  have len: "length ?rs = ?n"
    by (simp add: length_series)
  have proj: "map (\<lambda>r. (rd_timestamp r, rd_id r)) ?rs =
      map (\<lambda>t. (t, e)) (sample_instants start_date (iv * us_per_minute) ?n)"
    by (simp only: series_proj product_singleton)
  have "map fst (map (\<lambda>r. (rd_timestamp r, rd_id r)) ?rs) =
      sample_instants start_date (iv * us_per_minute) ?n"
    unfolding proj by (simp add: o_def)
  then have ts: "map rd_timestamp ?rs = sample_instants start_date (iv * us_per_minute) ?n"
    by (simp add: o_def)
  have "map snd (map (\<lambda>r. (rd_timestamp r, rd_id r)) ?rs) = replicate ?n e"
    unfolding proj by (simp add: o_def map_replicate_const sample_instants_def)
  then have ids: "map rd_id ?rs = replicate ?n e"
    by (simp add: o_def)
  from run len ts ids show ?thesis
    by (simp add: sample_count_def)
qed

text \<open>
  The scenario of the claim: from 2024-01-01T00:00 to 2024-01-01T01:00 every 15 minutes,
  five readings of \<open>s1\<close> at the minutes 0, 15, 30, 45 and 60.
\<close>

theorem single_sensor_reading_count_witness:
  "mk_datetime 2024 1 1 0 0 \<le> mk_datetime 2024 1 1 1 0 \<and> (0::int) < 15 \<and>
   valid_datetime (mk_datetime 2024 1 1 0 0) \<and>
   (\<exists>rs g'. generate_simulated_data exact_runtime (mk_datetime 2024 1 1 0 0) (mk_datetime 2024 1 1 1 0)
               (Some [''s1'']) 15 (0::nat) = Some (Inr rs, g') \<and>
            length rs = 5 \<and>
            map rd_timestamp rs =
              [mk_datetime 2024 1 1 0 0, mk_datetime 2024 1 1 0 15, mk_datetime 2024 1 1 0 30,
               mk_datetime 2024 1 1 0 45, mk_datetime 2024 1 1 1 0] \<and>
            map rd_id rs = [''s1'', ''s1'', ''s1'', ''s1'', ''s1''])"
proof -
  have t0: "mk_datetime 2024 1 1 0 0 = 63839664000000000"
    and t1: "mk_datetime 2024 1 1 1 0 = 63839667600000000"
    and t15: "mk_datetime 2024 1 1 0 15 = 63839664900000000"
    and t30: "mk_datetime 2024 1 1 0 30 = 63839665800000000"
    and t45: "mk_datetime 2024 1 1 0 45 = 63839666700000000"
    by (simp_all add: mk_datetime_def days_before_year_def days_before_month_def
          us_per_day_def us_per_hour_def us_per_minute_def)
  have h1: "mk_datetime 2024 1 1 0 0 \<le> mk_datetime 2024 1 1 1 0"
    by (simp add: t0 t1)
  have h2: "(0::int) < 15" by simp
  have h3: "valid_datetime (mk_datetime 2024 1 1 0 0)"
    by (simp add: t0 valid_datetime_def datetime_max_def us_per_day_def)
  have n: "sample_count (mk_datetime 2024 1 1 0 0) (mk_datetime 2024 1 1 1 0) 15 = 5"
    by (simp add: t0 t1 sample_count_def us_per_minute_def)
  have h4: "mk_datetime 2024 1 1 0 0
      + int (sample_count (mk_datetime 2024 1 1 0 0) (mk_datetime 2024 1 1 1 0) 15)
          * (15 * us_per_minute) \<le> datetime_max"
    unfolding n by (simp add: t0 us_per_minute_def datetime_max_def us_per_day_def)
  have five: "[0..<5] = [0, 1, 2, 3, 4]"
    by (simp add: upt_rec)
  have rep: "replicate 5 x = [x, x, x, x, x]" for x :: string
    by (simp add: numeral_eq_Suc)
  from single_sensor_reading_count [OF h1 h2 h3 h4, of exact_runtime "''s1''" 0]
  obtain rs g' where
    "generate_simulated_data exact_runtime (mk_datetime 2024 1 1 0 0) (mk_datetime 2024 1 1 1 0)
       (Some [''s1'']) 15 (0::nat) = Some (Inr rs, g')"
    "length rs = nat ((mk_datetime 2024 1 1 1 0 - mk_datetime 2024 1 1 0 0) div (15 * us_per_minute)) + 1"
    "map rd_timestamp rs = sample_instants (mk_datetime 2024 1 1 0 0) (15 * us_per_minute) (length rs)"
    "map rd_id rs = replicate (length rs) ''s1''"
    by blast
  moreover from this(2) have "length rs = 5"
    by (simp add: t0 t1 us_per_minute_def)
  ultimately have
    "generate_simulated_data exact_runtime (mk_datetime 2024 1 1 0 0) (mk_datetime 2024 1 1 1 0)
       (Some [''s1'']) 15 (0::nat) = Some (Inr rs, g') \<and>
     length rs = 5 \<and>
     map rd_timestamp rs =
       [mk_datetime 2024 1 1 0 0, mk_datetime 2024 1 1 0 15, mk_datetime 2024 1 1 0 30,
        mk_datetime 2024 1 1 0 45, mk_datetime 2024 1 1 1 0] \<and>
     map rd_id rs = [''s1'', ''s1'', ''s1'', ''s1'', ''s1'']"
    by (simp add: sample_instants_def five rep t0 t1 t15 t30 t45 us_per_minute_def)
  then have "\<exists>rs g'.
     generate_simulated_data exact_runtime (mk_datetime 2024 1 1 0 0) (mk_datetime 2024 1 1 1 0)
       (Some [''s1'']) 15 (0::nat) = Some (Inr rs, g') \<and>
     length rs = 5 \<and>
     map rd_timestamp rs =
       [mk_datetime 2024 1 1 0 0, mk_datetime 2024 1 1 0 15, mk_datetime 2024 1 1 0 30,
        mk_datetime 2024 1 1 0 45, mk_datetime 2024 1 1 1 0] \<and>
     map rd_id rs = [''s1'', ''s1'', ''s1'', ''s1'', ''s1'']"
    by (intro exI)
  with h1 h2 h3 show ?thesis by (intro conjI)
qed

text \<open>
  The count with the quotient rounded up fails when the interval does not divide the
  range: ten minutes sampled every 15 give one reading, not two. And at the last datetime
  of the library the call raises after its first pass.
\<close>

theorem single_sensor_reading_count_counterexample:
  "generate_simulated_data exact_runtime (mk_datetime 2024 1 1 0 0) (mk_datetime 2024 1 1 0 10)
     (Some [''s1'']) 15 0 =
     Some (Inr [\<lparr>rd_id = ''s1'', rd_timestamp = mk_datetime 2024 1 1 0 0, rd_voltage = 107,
                  rd_current = 4, rd_status = ''normal''\<rparr>], 5) \<and>
   spec_count (mk_datetime 2024 1 1 0 0) (mk_datetime 2024 1 1 0 10) 15 = 2 \<and>
   valid_datetime datetime_max \<and>
   generate_simulated_data exact_runtime datetime_max datetime_max (Some [''s1'']) 15 0 =
     Some (Inl OverflowError, 5)"
  by code_simp

subsection \<open>Length and order of the series\<close>

text \<open>
  Claim C8, as the code has it. For \<open>start \<le> end\<close>, a positive interval and a
  non-empty list of sensors, and when the instant after the last sample is a datetime of
  the library, the call returns one reading per sensor and sample instant: the pairs
  (timestamp, id) of the output are the sample instants in ascending order, each with
  the sensors in the order of the list.
\<close>

theorem generate_interleaved:
  assumes "start_date \<le> end_date" and "0 < iv" and "ids \<noteq> []" and "valid_datetime start_date"
    and "start_date + int (sample_count start_date end_date iv) * (iv * us_per_minute) \<le> datetime_max"
  shows "\<exists>rs g'. generate_simulated_data rt start_date end_date (Some ids) iv g = Some (Inr rs, g') \<and>
           length rs = length ids * sample_count start_date end_date iv \<and>
           sorted (map rd_timestamp rs) \<and>
           map (\<lambda>r. (rd_timestamp r, rd_id r)) rs =
             List.product
               (sample_instants start_date (iv * us_per_minute) (sample_count start_date end_date iv))
               ids"
proof -
  let ?n = "sample_count start_date end_date iv"
  let ?rs = "series rt (baselines rt (Some ids) g) ids (iv * us_per_minute) ?n start_date
               (rng_after_baselines rt (Some ids) g)"
  have run: "generate_simulated_data rt start_date end_date (Some ids) iv g =
      Some (Inr ?rs, (adv rt ^^ (?n * length ids)) (rng_after_baselines rt (Some ids) g))"
    using generate_runs [OF assms(1,2,4,5), of rt "Some ids" g]
    by (simp add: effective_ids_Some [OF assms(3)])
  have len: "length ?rs = length ids * ?n"
    by (rule length_series)
  have proj: "map (\<lambda>r. (rd_timestamp r, rd_id r)) ?rs =
      List.product (sample_instants start_date (iv * us_per_minute) ?n) ids"
    by (rule series_proj)
  have "0 \<le> iv * us_per_minute"
    using assms(2) by (simp add: us_per_minute_def)
  then have "sorted (map fst (List.product (sample_instants start_date (iv * us_per_minute) ?n) ids))"
    by (intro sorted_fst_product sorted_sample_instants)
  then have "sorted (map fst (map (\<lambda>r. (rd_timestamp r, rd_id r)) ?rs))"
    by (simp only: proj)
  then have srt: "sorted (map rd_timestamp ?rs)"
    by (simp add: o_def)
  from run len srt proj show ?thesis
    by blast
qed

text \<open>
  Two sensors over a quarter of an hour: four readings.
\<close>

theorem generate_interleaved_witness:
  "mk_datetime 2024 1 1 0 0 \<le> mk_datetime 2024 1 1 0 15 \<and> (0::int) < 15 \<and>
   [''s1'', ''s2''] \<noteq> [] \<and> valid_datetime (mk_datetime 2024 1 1 0 0) \<and>
   (\<exists>rs g'. generate_simulated_data exact_runtime (mk_datetime 2024 1 1 0 0)
               (mk_datetime 2024 1 1 0 15) (Some [''s1'', ''s2'']) 15 (0::nat) = Some (Inr rs, g') \<and>
            length rs = 4 \<and>
            sorted (map rd_timestamp rs) \<and>
            map (\<lambda>r. (rd_timestamp r, rd_id r)) rs =
              [(mk_datetime 2024 1 1 0 0, ''s1''), (mk_datetime 2024 1 1 0 0, ''s2''),
               (mk_datetime 2024 1 1 0 15, ''s1''), (mk_datetime 2024 1 1 0 15, ''s2'')])"
proof -
  have t0: "mk_datetime 2024 1 1 0 0 = 63839664000000000"
    and t15: "mk_datetime 2024 1 1 0 15 = 63839664900000000"
    by (simp_all add: mk_datetime_def days_before_year_def days_before_month_def
          us_per_day_def us_per_hour_def us_per_minute_def)
  have h1: "mk_datetime 2024 1 1 0 0 \<le> mk_datetime 2024 1 1 0 15"
    by (simp add: t0 t15)
  have h2: "(0::int) < 15" by simp
  have h3: "[''s1'', ''s2''] \<noteq> []" by simp
  have h4: "valid_datetime (mk_datetime 2024 1 1 0 0)"
    by (simp add: t0 valid_datetime_def datetime_max_def us_per_day_def)
  have n: "sample_count (mk_datetime 2024 1 1 0 0) (mk_datetime 2024 1 1 0 15) 15 = 2"
    by (simp add: t0 t15 sample_count_def us_per_minute_def)
  have h5: "mk_datetime 2024 1 1 0 0
      + int (sample_count (mk_datetime 2024 1 1 0 0) (mk_datetime 2024 1 1 0 15) 15)
          * (15 * us_per_minute) \<le> datetime_max"
    unfolding n by (simp add: t0 us_per_minute_def datetime_max_def us_per_day_def)
  have two: "[0..<2] = [0, 1]"
    by (simp add: upt_rec)
  have inst: "sample_instants (mk_datetime 2024 1 1 0 0) (15 * us_per_minute) 2 =
      [mk_datetime 2024 1 1 0 0, mk_datetime 2024 1 1 0 15]"
    by (simp add: sample_instants_def two t0 t15 us_per_minute_def)
  from generate_interleaved [OF h1 h2 h3 h4 h5, of exact_runtime 0]
  have "\<exists>rs g'. generate_simulated_data exact_runtime (mk_datetime 2024 1 1 0 0)
               (mk_datetime 2024 1 1 0 15) (Some [''s1'', ''s2'']) 15 (0::nat) = Some (Inr rs, g') \<and>
            length rs = 4 \<and>
            sorted (map rd_timestamp rs) \<and>
            map (\<lambda>r. (rd_timestamp r, rd_id r)) rs =
              [(mk_datetime 2024 1 1 0 0, ''s1''), (mk_datetime 2024 1 1 0 0, ''s2''),
               (mk_datetime 2024 1 1 0 15, ''s1''), (mk_datetime 2024 1 1 0 15, ''s2'')]"
    unfolding n inst by simp
  with h1 h2 h3 h4 show ?thesis by (intro conjI)
qed

text \<open>
  With \<open>start = end\<close> the last datetime of the library, the call has no output: it
  raises \<^verbatim>\<open>OverflowError\<close> when it steps to the next instant.
\<close>

theorem generate_interleaved_counterexample:
  "valid_datetime datetime_max \<and>
   generate_simulated_data exact_runtime datetime_max datetime_max (Some [''s1'', ''s2'']) 15 0 =
     Some (Inl OverflowError, 10)"
  by code_simp

subsection \<open>The default sensors\<close>

text \<open>
  Claim C10, as the code has it. An empty list of sensor ids is the call without the
  argument, which is the call with the three built-in ids; for \<open>start \<le> end\<close>, a
  positive interval, and the instant after the last sample a datetime of the library,
  the result has three readings per sample instant and is not empty.
\<close>

theorem empty_sensor_ids_default:
  "generate_simulated_data rt start_date end_date (Some []) iv g =
     generate_simulated_data rt start_date end_date None iv g \<and>
   generate_simulated_data rt start_date end_date (Some []) iv g =
     generate_simulated_data rt start_date end_date (Some default_sensor_ids) iv g \<and>
   (start_date \<le> end_date \<and> 0 < iv \<and> valid_datetime start_date \<and>
    start_date + int (sample_count start_date end_date iv) * (iv * us_per_minute) \<le> datetime_max
    \<longrightarrow> (\<exists>rs g'. generate_simulated_data rt start_date end_date (Some []) iv g = Some (Inr rs, g') \<and>
           length rs = 3 * sample_count start_date end_date iv \<and> rs \<noteq> []))"
proof (intro conjI impI)
  show "generate_simulated_data rt start_date end_date (Some []) iv g =
     generate_simulated_data rt start_date end_date None iv g"
    by (simp add: generate_simulated_data_def effective_ids_def)
  show "generate_simulated_data rt start_date end_date (Some []) iv g =
     generate_simulated_data rt start_date end_date (Some default_sensor_ids) iv g"
    by (simp add: generate_simulated_data_def effective_ids_def default_sensor_ids_def)
next
  assume a: "start_date \<le> end_date \<and> 0 < iv \<and> valid_datetime start_date \<and>
    start_date + int (sample_count start_date end_date iv) * (iv * us_per_minute) \<le> datetime_max"
  let ?n = "sample_count start_date end_date iv"
  let ?rs = "series rt (baselines rt (Some []) g) default_sensor_ids (iv * us_per_minute) ?n
               start_date (rng_after_baselines rt (Some []) g)"
  have run: "generate_simulated_data rt start_date end_date (Some []) iv g =
      Some (Inr ?rs, (adv rt ^^ (?n * length default_sensor_ids)) (rng_after_baselines rt (Some []) g))"
    using a generate_runs [of start_date end_date iv rt "Some []" g]
    by (simp add: effective_ids_empty)
  have len: "length ?rs = 3 * ?n"
    by (simp add: length_series default_sensor_ids_def)
  have "0 < ?n" by (simp add: sample_count_def)
  with len have "?rs \<noteq> []" by auto
  with run len show "\<exists>rs g'. generate_simulated_data rt start_date end_date (Some []) iv g = Some (Inr rs, g') \<and>
           length rs = 3 * sample_count start_date end_date iv \<and> rs \<noteq> []"
    by blast
qed

text \<open>
  One instant, three readings.
\<close>

theorem empty_sensor_ids_default_witness:
  "mk_datetime 2024 1 1 0 0 \<le> mk_datetime 2024 1 1 0 0 \<and> (0::int) < 15 \<and>
   valid_datetime (mk_datetime 2024 1 1 0 0) \<and>
   generate_simulated_data exact_runtime (mk_datetime 2024 1 1 0 0) (mk_datetime 2024 1 1 0 0)
     (Some []) 15 (0::nat) =
   generate_simulated_data exact_runtime (mk_datetime 2024 1 1 0 0) (mk_datetime 2024 1 1 0 0)
     None 15 0 \<and>
   (\<exists>rs g'. generate_simulated_data exact_runtime (mk_datetime 2024 1 1 0 0)
               (mk_datetime 2024 1 1 0 0) (Some []) 15 (0::nat) = Some (Inr rs, g') \<and>
            length rs = 3 \<and> rs \<noteq> [])"
proof -
  have t0: "mk_datetime 2024 1 1 0 0 = 63839664000000000"
    by (simp add: mk_datetime_def days_before_year_def days_before_month_def
          us_per_day_def us_per_hour_def us_per_minute_def)
  have h1: "mk_datetime 2024 1 1 0 0 \<le> mk_datetime 2024 1 1 0 0" by simp
  have h2: "(0::int) < 15" by simp
  have h3: "valid_datetime (mk_datetime 2024 1 1 0 0)"
    by (simp add: t0 valid_datetime_def datetime_max_def us_per_day_def)
  have n: "sample_count (mk_datetime 2024 1 1 0 0) (mk_datetime 2024 1 1 0 0) 15 = 1"
    by (simp add: sample_count_def)
  have h4: "mk_datetime 2024 1 1 0 0
      + int (sample_count (mk_datetime 2024 1 1 0 0) (mk_datetime 2024 1 1 0 0) 15)
          * (15 * us_per_minute) \<le> datetime_max"
    unfolding n by (simp add: t0 us_per_minute_def datetime_max_def us_per_day_def)
  note inst = empty_sensor_ids_default [of exact_runtime "mk_datetime 2024 1 1 0 0"
      "mk_datetime 2024 1 1 0 0" 15 "0::nat"]
  from inst have eq: "generate_simulated_data exact_runtime (mk_datetime 2024 1 1 0 0)
      (mk_datetime 2024 1 1 0 0) (Some []) 15 (0::nat) =
    generate_simulated_data exact_runtime (mk_datetime 2024 1 1 0 0) (mk_datetime 2024 1 1 0 0)
      None 15 0"
    by (elim conjE)
  from inst have "mk_datetime 2024 1 1 0 0 \<le> mk_datetime 2024 1 1 0 0 \<and> (0::int) < 15 \<and>
      valid_datetime (mk_datetime 2024 1 1 0 0) \<and>
      mk_datetime 2024 1 1 0 0
        + int (sample_count (mk_datetime 2024 1 1 0 0) (mk_datetime 2024 1 1 0 0) 15)
            * (15 * us_per_minute) \<le> datetime_max \<longrightarrow>
      (\<exists>rs g'. generate_simulated_data exact_runtime (mk_datetime 2024 1 1 0 0)
               (mk_datetime 2024 1 1 0 0) (Some []) 15 (0::nat) = Some (Inr rs, g') \<and>
            length rs = 3 * sample_count (mk_datetime 2024 1 1 0 0) (mk_datetime 2024 1 1 0 0) 15 \<and>
            rs \<noteq> [])"
    by (elim conjE)
  moreover have "mk_datetime 2024 1 1 0 0 \<le> mk_datetime 2024 1 1 0 0 \<and> (0::int) < 15 \<and>
      valid_datetime (mk_datetime 2024 1 1 0 0) \<and>
      mk_datetime 2024 1 1 0 0
        + int (sample_count (mk_datetime 2024 1 1 0 0) (mk_datetime 2024 1 1 0 0) 15)
            * (15 * us_per_minute) \<le> datetime_max"
    using h1 h2 h3 h4 by (intro conjI)
  ultimately have "\<exists>rs g'. generate_simulated_data exact_runtime (mk_datetime 2024 1 1 0 0)
               (mk_datetime 2024 1 1 0 0) (Some []) 15 (0::nat) = Some (Inr rs, g') \<and>
            length rs = 3 * sample_count (mk_datetime 2024 1 1 0 0) (mk_datetime 2024 1 1 0 0) 15 \<and>
            rs \<noteq> []"
    by (rule mp)
  then have "\<exists>rs g'. generate_simulated_data exact_runtime (mk_datetime 2024 1 1 0 0)
               (mk_datetime 2024 1 1 0 0) (Some []) 15 (0::nat) = Some (Inr rs, g') \<and>
            length rs = 3 \<and> rs \<noteq> []"
    unfolding n by simp
  with h1 h2 h3 eq show ?thesis by (intro conjI)
qed

text \<open>
  With the default interval and \<open>start = end\<close> the last datetime of the library,
  the call with the empty list raises: there is no result.
\<close>

theorem empty_sensor_ids_default_counterexample:
  "datetime_max \<le> datetime_max \<and> valid_datetime datetime_max \<and>
   generate_simulated_data exact_runtime datetime_max datetime_max (Some []) 15 0 =
     Some (Inl OverflowError, 15)"
  by code_simp

subsection \<open>The evening drop of the voltage\<close>

text \<open>
  Claim C6. In every series the generator returns, the \<open>k\<close>-th reading has the voltage
  \<open>(voltage_base + u) * 0.98\<close> when the hour of its timestamp is from 18 to 22, and
  \<open>voltage_base + u\<close> at any other hour, where \<open>voltage_base\<close> is the baseline drawn for
  its sensor in this call and \<open>u\<close> is the draw \<^verbatim>\<open>random.uniform(-5, 5)\<close> made for this
  reading (the first draw from the generator state reached after the baselines and the
  \<open>k\<close> readings before it).
\<close>

theorem evening_voltage_drop:
  assumes "generate_simulated_data rt start_date end_date sensor_ids iv g = Some (Inr rs, g')"
    and "k < length rs"
  shows "\<exists>b. baselines rt sensor_ids g (rd_id (rs ! k)) = Some b \<and>
           rd_voltage (rs ! k) =
             (if 18 \<le> hour (rd_timestamp (rs ! k)) \<and> hour (rd_timestamp (rs ! k)) \<le> 22
              then rt_mul rt
                     (rt_add rt (voltage_base b)
                        (fst (rt_uniform rt (- 5) 5
                               ((adv rt ^^ k) (rng_after_baselines rt sensor_ids g)))))
                     (rt_098 rt)
              else rt_add rt (voltage_base b)
                     (fst (rt_uniform rt (- 5) 5
                            ((adv rt ^^ k) (rng_after_baselines rt sensor_ids g)))))"
proof -
  let ?bv = "baselines rt sensor_ids g"
  let ?g1 = "rng_after_baselines rt sensor_ids g"
  from assms(1) have loop: "while_loop rt ?bv (effective_ids sensor_ids) iv end_date start_date [] ?g1 =
      Some (Inr rs, g')"
    by (simp add: generate_simulated_data_def baselines_def rng_after_baselines_def Let_def
          case_prod_beta)
  have "trace_ok rt ?bv ?g1 [] ?g1"
    by (simp add: trace_ok_def)
  from while_loop_trace [OF loop this] assms(2) have "voltage_ok rt ?bv ((adv rt ^^ k) ?g1) (rs ! k)"
    by (simp add: trace_ok_def)
  then show ?thesis
    unfolding voltage_ok_def .
qed

text \<open>
  Three readings of one sensor from 17:45 to 18:15; the third is in the evening.
\<close>

theorem evening_voltage_drop_witness:
  "generate_simulated_data exact_runtime (mk_datetime 2024 1 1 17 45) (mk_datetime 2024 1 1 18 15)
     (Some [''s1'']) 15 0 =
     Some (Inr [\<lparr>rd_id = ''s1'', rd_timestamp = mk_datetime 2024 1 1 17 45, rd_voltage = 107,
                  rd_current = 4, rd_status = ''normal''\<rparr>,
                \<lparr>rd_id = ''s1'', rd_timestamp = mk_datetime 2024 1 1 18 0, rd_voltage = 539 / 5,
                  rd_current = 23 / 5, rd_status = ''normal''\<rparr>,
                \<lparr>rd_id = ''s1'', rd_timestamp = mk_datetime 2024 1 1 18 15,
                  rd_voltage = 5537 / 50, rd_current = 26 / 5, rd_status = ''warning''\<rparr>], 11) \<and>
   (2::nat) < 3 \<and>
   hour (mk_datetime 2024 1 1 18 15) = 18 \<and>
   baselines exact_runtime (Some [''s1'']) 0 ''s1'' =
     Some \<lparr>voltage_base = 110, current_base = 22 / 5\<rparr> \<and>
   fst (rt_uniform exact_runtime (- 5) 5
          ((adv exact_runtime ^^ 2) (rng_after_baselines exact_runtime (Some [''s1'']) 0))) = 3 \<and>
   (5537 / 50 :: rat) = (110 + 3) * (49 / 50)"
proof -
  let ?rs = "[\<lparr>rd_id = ''s1'', rd_timestamp = mk_datetime 2024 1 1 17 45, rd_voltage = (107 :: rat),
                  rd_current = 4, rd_status = ''normal''\<rparr>,
                \<lparr>rd_id = ''s1'', rd_timestamp = mk_datetime 2024 1 1 18 0, rd_voltage = 539 / 5,
                  rd_current = 23 / 5, rd_status = ''normal''\<rparr>,
                \<lparr>rd_id = ''s1'', rd_timestamp = mk_datetime 2024 1 1 18 15,
                  rd_voltage = 5537 / 50, rd_current = 26 / 5, rd_status = ''warning''\<rparr>]"
  have run: "generate_simulated_data exact_runtime (mk_datetime 2024 1 1 17 45)
      (mk_datetime 2024 1 1 18 15) (Some [''s1'']) 15 0 = Some (Inr ?rs, 11)"
    by code_simp
  have k: "2 < length ?rs" by simp
  have hr: "hour (mk_datetime 2024 1 1 18 15) = 18"
    by code_simp
  have bl: "baselines exact_runtime (Some [''s1'']) 0 ''s1'' =
     Some \<lparr>voltage_base = 110, current_base = 22 / 5\<rparr>"
    by code_simp
  have u: "fst (rt_uniform exact_runtime (- 5) 5
          ((adv exact_runtime ^^ 2) (rng_after_baselines exact_runtime (Some [''s1'']) 0))) = 3"
    by code_simp
  from evening_voltage_drop [OF run k]
  have "(5537 / 50 :: rat) = rt_mul exact_runtime (rt_add exact_runtime 110 3) (rt_098 exact_runtime)"
    by (simp add: hr bl u)
  then have "(5537 / 50 :: rat) = (110 + 3) * (49 / 50)"
    by (simp add: exact_runtime_def)
  moreover have "(2::nat) < 3" by simp
  ultimately show ?thesis using run hr bl u by (intro conjI)
qed

section \<open>Properties of the post-processor and the playback\<close>

subsection \<open>The power column\<close>

lemma to_datetime_eq:
  "to_datetime cs =
     (if list_all (\<lambda>c. in_ns_bounds (instant c)) cs
      then Inr (map (\<lambda>c. Timestamp (instant c)) cs) else Inl OutOfBoundsDatetime)"
  by (induction cs) (simp_all add: to_datetime_cell_def)

lemma map2_map_self: "map2 f (map g xs) xs = map (\<lambda>x. f (g x) x) xs"
  by (induction xs) simp_all

lemma map2_map_map_self:
  "map2 f (map2 k (map g xs) (map h xs)) xs = map (\<lambda>x. f (k (g x) (h x)) x) xs"
  by (induction xs) simp_all

lemma convert_timestamp_DataFrame:
  assumes "data \<noteq> []"
  shows "convert_timestamp (DataFrame data) =
     (DataFrame data)\<lparr>tb_rows :=
        map (\<lambda>r. (row_of_reading r)\<lparr>row_timestamp :=
               (if list_all in_ns_bounds (map rd_timestamp data)
                then Timestamp (rd_timestamp r) else IsoText (rd_timestamp r))\<rparr>) data\<rparr>"
proof -
  have cells: "map row_timestamp (map row_of_reading data) = map (\<lambda>r. IsoText (rd_timestamp r)) data"
    by (simp add: row_of_reading_def)
  have bounds: "list_all (\<lambda>c. in_ns_bounds (instant c)) (map (\<lambda>r. IsoText (rd_timestamp r)) data) =
      list_all in_ns_bounds (map rd_timestamp data)"
    by (simp add: list.pred_map o_def)
  have same: "map (\<lambda>r. (row_of_reading r)\<lparr>row_timestamp := IsoText (rd_timestamp r)\<rparr>) data =
      map row_of_reading data"
    by (simp add: row_of_reading_def)
  show ?thesis
  proof (cases "list_all in_ns_bounds (map rd_timestamp data)")
    case True
    have "map2 (\<lambda>c r. r\<lparr>row_timestamp := c\<rparr>)
            (map (\<lambda>c. Timestamp (instant c)) (map (\<lambda>r. IsoText (rd_timestamp r)) data))
            (map row_of_reading data) =
          map (\<lambda>r. (row_of_reading r)\<lparr>row_timestamp := Timestamp (rd_timestamp r)\<rparr>) data"
      by (induction data) simp_all
    with True assms show ?thesis
      by (simp add: convert_timestamp_def DataFrame_def to_datetime_eq cells bounds set_timestamp_def
            del: map_map)
  next
    case False
    with assms show ?thesis
      by (simp add: convert_timestamp_def DataFrame_def to_datetime_eq cells bounds same
            del: map_map)
  qed
qed

lemma convert_voltage_id: "convert_voltage df = df"
proof -
  have "map2 (\<lambda>c r. r\<lparr>row_voltage := c\<rparr>) (map row_voltage (tb_rows df)) (tb_rows df) = tb_rows df"
    by (simp add: map2_map_self)
  then show ?thesis
    by (simp add: convert_voltage_def astype_float_def set_voltage_def)
qed

lemma convert_current_id: "convert_current df = df"
proof -
  have "map2 (\<lambda>c r. r\<lparr>row_current := c\<rparr>) (map row_current (tb_rows df)) (tb_rows df) = tb_rows df"
    by (simp add: map2_map_self)
  then show ?thesis
    by (simp add: convert_current_def astype_float_def set_current_def)
qed

lemma convert_id_id: "convert_id df = df"
proof -
  have "map2 (\<lambda>c r. r\<lparr>row_id := c\<rparr>) (map row_id (tb_rows df)) (tb_rows df) = tb_rows df"
    by (simp add: map2_map_self)
  then show ?thesis
    by (simp add: convert_id_def astype_str_def set_id_def)
qed

lemma calculate_power_rows:
  assumes "''voltage'' \<in> set (tb_columns df)" and "''current'' \<in> set (tb_columns df)"
  shows "calculate_power rt df =
     \<lparr>tb_columns = (if ''power'' \<in> set (tb_columns df) then tb_columns df
                     else tb_columns df @ [''power'']),
      tb_rows = map (\<lambda>r. r\<lparr>row_power := Some (rt_mul rt (row_voltage r) (row_current r))\<rparr>)
                  (tb_rows df)\<rparr>"
proof -
  have "map2 (\<lambda>c r. r\<lparr>row_power := Some c\<rparr>)
          (map2 (rt_mul rt) (map row_voltage (tb_rows df)) (map row_current (tb_rows df)))
          (tb_rows df) =
        map (\<lambda>r. r\<lparr>row_power := Some (rt_mul rt (row_voltage r) (row_current r))\<rparr>) (tb_rows df)"
    by (rule map2_map_map_self)
  with assms show ?thesis
    by (simp add: calculate_power_def mul_columns_def set_power_def del: map_map)
qed

lemma process_body_rows:
  assumes "data \<noteq> []"
  shows "process_body rt data =
     Inr \<lparr>tb_columns = [''id'', ''timestamp'', ''voltage'', ''current'', ''status'', ''power''],
          tb_rows = map (\<lambda>r. \<lparr>row_id = rd_id r,
                               row_timestamp = (if list_all in_ns_bounds (map rd_timestamp data)
                                                then Timestamp (rd_timestamp r)
                                                else IsoText (rd_timestamp r)),
                               row_voltage = rd_voltage r, row_current = rd_current r,
                               row_status = rd_status r,
                               row_power = Some (rt_mul rt (rd_voltage r) (rd_current r))\<rparr>) data\<rparr>"
proof -
  have ne: "\<not> df_empty (DataFrame data)"
    using assms by (simp add: DataFrame_def df_empty_def)
  have cols: "tb_columns (convert_timestamp (DataFrame data)) =
      [''id'', ''timestamp'', ''voltage'', ''current'', ''status'']"
    using assms by (simp add: convert_timestamp_DataFrame) (simp add: DataFrame_def)
  have "process_body rt data = Inr (calculate_power rt (convert_timestamp (DataFrame data)))"
    using assms ne
    by (simp add: process_body_def Let_def convert_voltage_id convert_current_id convert_id_id)
  also have "calculate_power rt (convert_timestamp (DataFrame data)) =
      \<lparr>tb_columns = [''id'', ''timestamp'', ''voltage'', ''current'', ''status'', ''power''],
       tb_rows = map (\<lambda>r. r\<lparr>row_power := Some (rt_mul rt (row_voltage r) (row_current r))\<rparr>)
                   (tb_rows (convert_timestamp (DataFrame data)))\<rparr>"
    by (subst calculate_power_rows) (simp_all add: cols)
  also have "map (\<lambda>r. r\<lparr>row_power := Some (rt_mul rt (row_voltage r) (row_current r))\<rparr>)
                   (tb_rows (convert_timestamp (DataFrame data))) =
      map (\<lambda>r. \<lparr>row_id = rd_id r,
                  row_timestamp = (if list_all in_ns_bounds (map rd_timestamp data)
                                   then Timestamp (rd_timestamp r)
                                   else IsoText (rd_timestamp r)),
                  row_voltage = rd_voltage r, row_current = rd_current r,
                  row_status = rd_status r,
                  row_power = Some (rt_mul rt (rd_voltage r) (rd_current r))\<rparr>) data"
    using assms by (simp add: convert_timestamp_DataFrame row_of_reading_def)
  finally show ?thesis .
qed

text \<open>
  Claim C7. For every list of data points, and so for every series of the generator,
  \<^verbatim>\<open>process_sensor_data\<close> returns a table and does not raise: the body of its outer
  \<^verbatim>\<open>try\<close> ends with a table, so the outer handler is not entered, because every call
  that can raise stands in a handler of its own. The table is the empty one for the
  empty list. Otherwise it has the rows of the data points in order, each with the power
  cell \<open>voltage * current\<close> of its own voltage and current, under the columns of the data
  points followed by \<^verbatim>\<open>power\<close>; the timestamps are converted when all of them are in
  the range of a pandas timestamp, and when one is not, the conversion raises, its
  handler leaves the column of ISO texts as it was, and the power column is computed all
  the same.
\<close>

theorem process_power_column:
  "process_sensor_data rt [] = empty_table \<and>
   process_body rt data = Inr (process_sensor_data rt data) \<and>
   tb_rows (process_sensor_data rt data) =
     map (\<lambda>r. \<lparr>row_id = rd_id r,
                 row_timestamp = (if list_all in_ns_bounds (map rd_timestamp data)
                                  then Timestamp (rd_timestamp r)
                                  else IsoText (rd_timestamp r)),
                 row_voltage = rd_voltage r, row_current = rd_current r,
                 row_status = rd_status r,
                 row_power = Some (rt_mul rt (rd_voltage r) (rd_current r))\<rparr>) data \<and>
   tb_columns (process_sensor_data rt data) =
     (if data = [] then []
      else [''id'', ''timestamp'', ''voltage'', ''current'', ''status'', ''power''])"
proof (cases "data = []")
  case True
  then show ?thesis
    by (simp add: process_sensor_data_def process_body_def empty_table_def)
next
  case False
  have empty: "process_sensor_data rt [] = empty_table"
    by (simp add: process_sensor_data_def process_body_def)
  from process_body_rows [OF False, of rt] False empty show ?thesis
    by (simp add: process_sensor_data_def)
qed

text \<open>
  A data point of the year 3000 keeps its ISO text and gets its power; one of 2024 is
  converted. The range of the conversion is the one pandas documents, from
  1677-09-21T00:12:43 to 2262-04-11T23:47:16.
\<close>

lemma process_keeps_text_beyond_timestamp_range:
  "to_datetime [IsoText (mk_datetime 3000 1 1 0 0)] = Inl OutOfBoundsDatetime \<and>
   process_sensor_data exact_runtime
     [\<lparr>rd_id = ''s1'', rd_timestamp = mk_datetime 3000 1 1 0 0, rd_voltage = 120,
       rd_current = 5, rd_status = ''normal''\<rparr>] =
     \<lparr>tb_columns = [''id'', ''timestamp'', ''voltage'', ''current'', ''status'', ''power''],
      tb_rows = [\<lparr>row_id = ''s1'', row_timestamp = IsoText (mk_datetime 3000 1 1 0 0),
                  row_voltage = 120, row_current = 5, row_status = ''normal'',
                  row_power = Some 600\<rparr>]\<rparr> \<and>
   process_sensor_data exact_runtime
     [\<lparr>rd_id = ''s1'', rd_timestamp = mk_datetime 2024 1 1 0 0, rd_voltage = 120,
       rd_current = 5, rd_status = ''normal''\<rparr>] =
     \<lparr>tb_columns = [''id'', ''timestamp'', ''voltage'', ''current'', ''status'', ''power''],
      tb_rows = [\<lparr>row_id = ''s1'', row_timestamp = Timestamp (mk_datetime 2024 1 1 0 0),
                  row_voltage = 120, row_current = 5, row_status = ''normal'',
                  row_power = Some 600\<rparr>]\<rparr>"
  by code_simp

lemma ns_bounds_are_the_pandas_range:
  "in_ns_bounds (mk_datetime 1677 9 21 0 13) \<and> \<not> in_ns_bounds (mk_datetime 1677 9 21 0 12) \<and>
   in_ns_bounds (mk_datetime 2262 4 11 23 47) \<and> \<not> in_ns_bounds (mk_datetime 2262 4 11 23 48)"
  by code_simp

subsection \<open>The rolling buffer\<close>

lemma last_n_append: "last_n k (last_n k xs @ ys) = last_n k (xs @ ys)"
  by (cases "length xs \<le> k") (auto simp: last_n_def add.commute)

lemma length_last_n: "length (last_n k xs) = min k (length xs)"
  by (auto simp: last_n_def)

lemma slice_rows_from_last: "0 < k \<Longrightarrow> slice_rows_from (- int k) xs = last_n k xs"
  by (auto simp: slice_rows_from_def clip_bound_def last_n_def max_def nat_diff_distrib)

lemma update_existing_buffer:
  assumes "real_time_buffer ss = Some old"
  shows "\<exists>b. real_time_buffer (update_real_time_buffer new_data ss) = Some b \<and>
           tb_rows b = last_n 100 (tb_rows old @ tb_rows new_data)"
proof -
  have "slice_rows_from (- 100) xs = last_n 100 xs" for xs :: "'a row list"
    using slice_rows_from_last [of 100 xs] by simp
  then show ?thesis
    using assms
    by (auto simp: update_real_time_buffer_def Let_def MAX_BUFFER_SIZE_def df_len_def
          iloc_from_def concat_tables_def last_n_def)
qed

lemma append_all_existing_buffer:
  "real_time_buffer ss = Some old \<Longrightarrow> slices \<noteq> [] \<Longrightarrow>
   \<exists>b. real_time_buffer (append_all slices ss) = Some b \<and>
       tb_rows b = last_n 100 (tb_rows old @ concat (map tb_rows slices))"
proof (induction slices arbitrary: ss old)
  case Nil
  then show ?case by simp
next
  case (Cons s rest)
  from update_existing_buffer [OF Cons.prems(1), of s] obtain b where
    b: "real_time_buffer (update_real_time_buffer s ss) = Some b"
       "tb_rows b = last_n 100 (tb_rows old @ tb_rows s)"
    by blast
  show ?case
  proof (cases "rest = []")
    case True
    with b show ?thesis by (simp add: append_all_def)
  next
    case False
    from Cons.IH [OF b(1) False] obtain b' where
      "real_time_buffer (append_all rest (update_real_time_buffer s ss)) = Some b'"
      "tb_rows b' = last_n 100 (tb_rows b @ concat (map tb_rows rest))"
      by blast
    then show ?thesis
      by (simp add: append_all_def b(2) last_n_append)
  qed
qed

text \<open>
  Claim C2. Starting without a buffer, after two or more calls of
  \<^verbatim>\<open>update_real_time_buffer\<close> the buffer holds the last 100 of all the rows appended so
  far, in arrival order: its length is the minimum of 100 and the number of rows
  appended, so it never exceeds 100 and is exactly 100 once more than 100 rows have
  arrived.
\<close>

theorem rolling_buffer_capacity:
  assumes "real_time_buffer ss = None"
  shows "\<exists>b. real_time_buffer (append_all (first # second # rest) ss) = Some b \<and>
           tb_rows b = last_n 100 (concat (map tb_rows (first # second # rest))) \<and>
           length (tb_rows b) = min 100 (length (concat (map tb_rows (first # second # rest))))"
proof -
  let ?ss = "update_real_time_buffer first ss"
  have first: "real_time_buffer ?ss = Some first"
    using assms by (simp add: update_real_time_buffer_def)
  from append_all_existing_buffer [OF first, of "second # rest"] obtain b where
    "real_time_buffer (append_all (second # rest) ?ss) = Some b"
    "tb_rows b = last_n 100 (tb_rows first @ concat (map tb_rows (second # rest)))"
    by blast
  then have "real_time_buffer (append_all (first # second # rest) ss) = Some b \<and>
           tb_rows b = last_n 100 (concat (map tb_rows (first # second # rest))) \<and>
           length (tb_rows b) = min 100 (length (concat (map tb_rows (first # second # rest))))"
    by (simp add: append_all_def length_last_n)
  then show ?thesis ..
qed

text \<open>
  Sixty rows, then seventy: the buffer holds the rows 30 to 129.
\<close>

theorem rolling_buffer_capacity_witness:
  "real_time_buffer fresh_session = None \<and>
   (\<exists>b. real_time_buffer (append_all [sample_table 0 60, sample_table 60 130] fresh_session) = Some b \<and>
        tb_rows b = map sample_row [30..<130] \<and>
        length (tb_rows b) = 100)"
proof -
  have h: "real_time_buffer fresh_session = None"
    by (simp add: fresh_session_def)
  have all: "concat (map tb_rows [sample_table 0 60, sample_table 60 130]) = map sample_row [0..<130]"
    using upt_add_eq_append [of 0 60 70] by (simp add: sample_table_def)
  have last: "last_n 100 (map sample_row [0..<130]) = map sample_row [30..<130]"
    by (simp add: last_n_def drop_map)
  from rolling_buffer_capacity [OF h, of "sample_table 0 60" "sample_table 60 130" "[]"]
  have "\<exists>b. real_time_buffer (append_all [sample_table 0 60, sample_table 60 130] fresh_session) = Some b \<and>
        tb_rows b = map sample_row [30..<130] \<and>
        length (tb_rows b) = 100"
    unfolding all last by simp
  with h show ?thesis by (intro conjI)
qed

subsection \<open>Advancing the cursor\<close>

lemma sorts_by_timestamp_length:
  "sorts_by_timestamp srt \<Longrightarrow> length (srt xs) = length xs"
  by (metis sorts_by_timestamp_def mset_eq_length)

lemma sort_key_sorts_by_timestamp:
  "sorts_by_timestamp (sort_key (\<lambda>r. instant (row_timestamp r)))"
  by (simp add: sorts_by_timestamp_def)

lemma tie_reversing_sort_sorts_by_timestamp: "sorts_by_timestamp tie_reversing_sort"
proof -
  have "sorted (map (\<lambda>r. instant (row_timestamp r)) (tie_reversing_sort xs))" for xs :: "'a row list"
  proof -
    let ?ys = "sort_key (\<lambda>r. - instant (row_timestamp r)) xs"
    have "sorted (map (\<lambda>r. - instant (row_timestamp r)) ?ys)"
      by (rule sorted_sort_key)
    then have "sorted_wrt (\<lambda>x y. instant (row_timestamp y) \<le> instant (row_timestamp x)) ?ys"
      by (simp add: sorted_map)
    then have "sorted_wrt (\<lambda>x y. instant (row_timestamp x) \<le> instant (row_timestamp y)) (rev ?ys)"
      by (simp add: sorted_wrt_rev)
    then show ?thesis
      by (simp add: tie_reversing_sort_def sorted_map)
  qed
  moreover have "mset (tie_reversing_sort xs) = mset xs" for xs :: "'a row list"
    by (simp add: tie_reversing_sort_def)
  ultimately show ?thesis
    by (simp add: sorts_by_timestamp_def)
qed

lemma slice_rows_forward:
  assumes "0 \<le> c" and "c \<le> int (length xs)" and "0 \<le> step"
  shows "slice_rows c (c + step) xs = take (nat step) (drop (nat c) xs)"
proof (cases "c + step \<le> int (length xs)")
  case True
  with assms show ?thesis
    by (simp add: slice_rows_def clip_bound_def Let_def min_def)
next
  case False
  with assms have "length (drop (nat c) xs) \<le> nat step"
    by simp
  then have "take (nat step) (drop (nat c) xs) = drop (nat c) xs"
    by (rule take_all)
  moreover from False assms have "nat (int (length xs) - c) = length (drop (nat c) xs)"
    by simp
  ultimately show ?thesis
    using False assms by (simp add: slice_rows_def clip_bound_def Let_def min_def)
qed

lemma simulate_real_time_data_unfold:
  assumes "sorts_by_timestamp srt" and "\<not> df_empty df" and "''timestamp'' \<in> set (tb_columns df)"
  shows "simulate_real_time_data srt df step ss =
     (let n = df_len df;
          c = (if cursor_of ss \<ge> n then 0 else cursor_of ss)
      in (Some (df\<lparr>tb_rows := slice_rows c (c + step) (srt (tb_rows df))\<rparr>),
          ss\<lparr>simulation_index := Some ((c + step) mod n)\<rparr>))"
proof -
  have len: "df_len (sort_values srt df) = df_len df"
    by (simp add: df_len_def sort_values_def sorts_by_timestamp_length [OF assms(1)])
  have idx: "(case simulation_index
                 (case simulation_index ss of None \<Rightarrow> ss\<lparr>simulation_index := Some 0\<rparr> | Some i \<Rightarrow> ss) of
               None \<Rightarrow> 0 | Some i \<Rightarrow> i) = cursor_of ss"
    by (simp add: cursor_of_def split: option.splits)
  have upd: "(case simulation_index ss of None \<Rightarrow> ss\<lparr>simulation_index := Some 0\<rparr> | Some i \<Rightarrow> ss)
               \<lparr>simulation_index := Some x\<rparr> = ss\<lparr>simulation_index := Some x\<rparr>" for x
    by (simp split: option.splits)
  show ?thesis
    using assms(2,3)
    by (simp add: simulate_real_time_data_def Let_def idx upd len iloc_def)
       (simp add: sort_values_def)
qed

text \<open>
  The source assigns \<^verbatim>\<open>simulation_index\<close> in three places: 0 when the key is missing,
  a remainder modulo the length of the batch after each slice, and 0 in the handler of
  the button. So the cursor of a session is never negative: it is 0 in a session without
  the key, \<^verbatim>\<open>simulate_real_time_data\<close> leaves it in the range of the batch whatever it
  was, and the buffer update and the playback tick keep it.
\<close>

lemma cursor_of_unset: "simulation_index ss = None \<Longrightarrow> cursor_of ss = 0"
  by (simp add: cursor_of_def)

lemma simulate_cursor_in_range:
  assumes "sorts_by_timestamp srt" and "\<not> df_empty df" and "''timestamp'' \<in> set (tb_columns df)"
  shows "0 \<le> cursor_of (snd (simulate_real_time_data srt df step ss)) \<and>
         cursor_of (snd (simulate_real_time_data srt df step ss)) < df_len df"
proof -
  have "0 < df_len df"
    using assms(2) by (simp add: df_empty_def df_len_def)
  then show ?thesis
    by (simp add: simulate_real_time_data_unfold [OF assms] Let_def cursor_of_def)
qed

lemma simulate_keeps_cursor_nonnegative:
  assumes "sorts_by_timestamp srt" and "0 \<le> cursor_of ss"
  shows "0 \<le> cursor_of (snd (simulate_real_time_data srt df step ss))"
proof (cases "df_empty df \<or> ''timestamp'' \<notin> set (tb_columns df)")
  case True
  with assms(2) show ?thesis
    by (simp add: simulate_real_time_data_def)
next
  case False
  with simulate_cursor_in_range [OF assms(1), of df step ss] show ?thesis
    by simp
qed

lemma update_real_time_buffer_cursor:
  "cursor_of (update_real_time_buffer new_data ss) = cursor_of ss"
  by (simp add: update_real_time_buffer_def cursor_of_def Let_def split: option.splits)

lemma simulation_tick_keeps_cursor_nonnegative:
  assumes "sorts_by_timestamp srt" and "0 \<le> cursor_of ss"
  shows "0 \<le> cursor_of (simulation_tick srt step now ss)"
proof -
  have a: "0 \<le> cursor_of (snd (simulate_real_time_data srt df step ss))" for df
    by (rule simulate_keeps_cursor_nonnegative [OF assms])
  have b: "cursor_of ((update_real_time_buffer nd ss')\<lparr>last_refresh := Some now\<rparr>) = cursor_of ss'"
    for nd and ss' :: "'a session"
    using update_real_time_buffer_cursor [of nd ss'] by (simp add: cursor_of_def)
  show ?thesis
  proof (cases "sensor_data ss")
    case None
    with assms(2) show ?thesis by (simp add: simulation_tick_def)
  next
    case (Some base_df)
    obtain res ss' where r: "simulate_real_time_data srt base_df step ss = (res, ss')"
      by (cases "simulate_real_time_data srt base_df step ss")
    with a [of base_df] have "0 \<le> cursor_of ss'" by simp
    with Some r assms(2) b show ?thesis
      by (simp add: simulation_tick_def split: option.splits)
  qed
qed

text \<open>
  Claim C3. For a batch that is not empty (and has its timestamp column), a cursor that
  is not negative, as every cursor of a session is, and a step of at least one: the
  cursor is first reset to 0 when it is not below the length of the batch; the slice is
  the rows from the cursor on, at most \<open>step\<close> of them, cut at the end of the batch, of
  the batch as \<^verbatim>\<open>sort_values\<close> returns it, which is a rearrangement of the batch in
  ascending order of timestamp (in whatever order the sort leaves rows of equal
  timestamp); and the new cursor is \<open>(cursor + step) mod len(batch)\<close> for the cursor after
  the reset. Nothing else of the session changes.
\<close>

theorem advance_slice_and_cursor:
  assumes "sorts_by_timestamp srt" and "\<not> df_empty df"
    and "''timestamp'' \<in> set (tb_columns df)"
    and "0 \<le> cursor_of ss" and "1 \<le> step"
  shows "simulate_real_time_data srt df step ss =
     (let n = df_len df;
          c = (if cursor_of ss \<ge> n then 0 else cursor_of ss)
      in (Some (df\<lparr>tb_rows := take (nat step) (drop (nat c) (srt (tb_rows df)))\<rparr>),
          ss\<lparr>simulation_index := Some ((c + step) mod n)\<rparr>)) \<and>
     mset (srt (tb_rows df)) = mset (tb_rows df) \<and>
     sorted (map (\<lambda>r. instant (row_timestamp r)) (srt (tb_rows df)))"
proof -
  define n where "n = df_len df"
  define c where "c = (if cursor_of ss \<ge> n then 0 else cursor_of ss)"
  have len: "int (length (srt (tb_rows df))) = n"
    by (simp add: n_def df_len_def sorts_by_timestamp_length [OF assms(1)])
  have n0: "0 \<le> n"
    by (simp add: n_def df_len_def)
  have c0: "0 \<le> c" and cn: "c \<le> int (length (srt (tb_rows df)))"
    using assms(4) n0 by (auto simp: c_def len)
  have slice: "slice_rows c (c + step) (srt (tb_rows df)) =
      take (nat step) (drop (nat c) (srt (tb_rows df)))"
    using assms(5) by (intro slice_rows_forward c0 cn) simp
  have "simulate_real_time_data srt df step ss =
      (Some (df\<lparr>tb_rows := slice_rows c (c + step) (srt (tb_rows df))\<rparr>),
       ss\<lparr>simulation_index := Some ((c + step) mod n)\<rparr>)"
    unfolding simulate_real_time_data_unfold [OF assms(1,2,3)] Let_def c_def n_def ..
  then have "simulate_real_time_data srt df step ss =
      (Some (df\<lparr>tb_rows := take (nat step) (drop (nat c) (srt (tb_rows df)))\<rparr>),
       ss\<lparr>simulation_index := Some ((c + step) mod n)\<rparr>)"
    by (simp only: slice)
  then have run: "simulate_real_time_data srt df step ss =
     (let n = df_len df;
          c = (if cursor_of ss \<ge> n then 0 else cursor_of ss)
      in (Some (df\<lparr>tb_rows := take (nat step) (drop (nat c) (srt (tb_rows df)))\<rparr>),
          ss\<lparr>simulation_index := Some ((c + step) mod n)\<rparr>))"
    unfolding Let_def c_def n_def .
  from assms(1) have "mset (srt (tb_rows df)) = mset (tb_rows df)"
    and "sorted (map (\<lambda>r. instant (row_timestamp r)) (srt (tb_rows df)))"
    by (simp_all add: sorts_by_timestamp_def)
  with run show ?thesis by (intro conjI)
qed

lemma sorted_sample_rows:
  "sorted (map (\<lambda>r. instant (row_timestamp r)) (map sample_row [lo..<hi]))"
proof -
  have eq: "map (\<lambda>r. instant (row_timestamp r)) (map sample_row [lo..<hi]) = map int [lo..<hi]"
    by (simp add: sample_row_def)
  have "sorted (map int [lo..<hi])"
    by (simp add: sorted_map)
  then show ?thesis
    by (simp only: eq)
qed

lemma tie_reversing_sort_tied_table:
  "tie_reversing_sort (tb_rows tied_table) =
     [tied_row ''sensor-003'' 0, tied_row ''sensor-002'' 0, tied_row ''sensor-001'' 0,
      tied_row ''sensor-003'' 1, tied_row ''sensor-002'' 1, tied_row ''sensor-001'' 1]"
  by (simp add: tie_reversing_sort_def tied_table_def tied_row_def)

text \<open>
  The scenario of the claim: cursor 98 in a batch of 100 rows, step 5. The slice is the
  rows 98 and 99, and the new cursor is 3. And a batch with three rows at each of two
  instants under a sort that reverses ties: from cursor 4 with step 5 the slice is the
  last two rows of the sorted batch, and the new cursor is 3.
\<close>

theorem advance_slice_and_cursor_witness:
  "sorts_by_timestamp (sort_key (\<lambda>r :: rat row. instant (row_timestamp r))) \<and>
   \<not> df_empty (sample_table 0 100) \<and>
   ''timestamp'' \<in> set (tb_columns (sample_table 0 100)) \<and>
   0 \<le> cursor_of (fresh_session\<lparr>simulation_index := Some 98\<rparr>) \<and>
   (1::int) \<le> 5 \<and>
   simulate_real_time_data (sort_key (\<lambda>r. instant (row_timestamp r))) (sample_table 0 100) 5
       (fresh_session\<lparr>simulation_index := Some 98\<rparr>) =
     (Some ((sample_table 0 100)\<lparr>tb_rows := [sample_row 98, sample_row 99]\<rparr>),
      fresh_session\<lparr>simulation_index := Some 3\<rparr>) \<and>
   sorts_by_timestamp (tie_reversing_sort :: rat row list \<Rightarrow> rat row list) \<and>
   \<not> df_empty tied_table \<and>
   ''timestamp'' \<in> set (tb_columns tied_table) \<and>
   0 \<le> cursor_of (fresh_session\<lparr>simulation_index := Some 4\<rparr>) \<and>
   simulate_real_time_data tie_reversing_sort tied_table 5
       (fresh_session\<lparr>simulation_index := Some 4\<rparr>) =
     (Some (tied_table\<lparr>tb_rows := [tied_row ''sensor-002'' 1, tied_row ''sensor-001'' 1]\<rparr>),
      fresh_session\<lparr>simulation_index := Some 3\<rparr>)"
proof -
  let ?srt = "sort_key (\<lambda>r :: rat row. instant (row_timestamp r))"
  let ?ss = "fresh_session\<lparr>simulation_index := Some 98\<rparr>"
  let ?st = "fresh_session\<lparr>simulation_index := Some 4\<rparr>"
  have h0: "sorts_by_timestamp ?srt"
    by (rule sort_key_sorts_by_timestamp)
  have h1: "\<not> df_empty (sample_table 0 100)"
    by (simp add: df_empty_def sample_table_def)
  have h2: "''timestamp'' \<in> set (tb_columns (sample_table 0 100))"
    by (simp add: sample_table_def)
  have c: "cursor_of ?ss = 98"
    by (simp add: cursor_of_def)
  have h3: "0 \<le> cursor_of ?ss"
    by (simp add: c)
  have h4: "(1::int) \<le> 5" by simp
  have n: "df_len (sample_table 0 100) = 100"
    by (simp add: df_len_def sample_table_def)
  have srt: "?srt (tb_rows (sample_table 0 100)) = map sample_row [0..<100]"
    unfolding sample_table_def using sorted_sample_rows [of 0 100]
    by (simp add: sort_key_id_if_sorted)
  have rows: "drop 98 (map sample_row [0..<100]) = map sample_row [98..<100]"
    by (simp add: drop_map)
  from advance_slice_and_cursor [OF h0 h1 h2 h3 h4]
  have "simulate_real_time_data ?srt (sample_table 0 100) 5 ?ss =
     (let n = df_len (sample_table 0 100);
          c = (if cursor_of ?ss \<ge> n then 0 else cursor_of ?ss)
      in (Some ((sample_table 0 100)\<lparr>tb_rows :=
                  take (nat 5) (drop (nat c) (?srt (tb_rows (sample_table 0 100))))\<rparr>),
          ?ss\<lparr>simulation_index := Some ((c + 5) mod n)\<rparr>))"
    by (elim conjE)
  then have first: "simulate_real_time_data ?srt (sample_table 0 100) 5 ?ss =
     (Some ((sample_table 0 100)\<lparr>tb_rows := [sample_row 98, sample_row 99]\<rparr>),
      fresh_session\<lparr>simulation_index := Some 3\<rparr>)"
    unfolding Let_def c n srt by (simp add: rows)
  have k0: "sorts_by_timestamp (tie_reversing_sort :: rat row list \<Rightarrow> rat row list)"
    by (rule tie_reversing_sort_sorts_by_timestamp)
  have k1: "\<not> df_empty tied_table"
    by (simp add: df_empty_def tied_table_def)
  have k2: "''timestamp'' \<in> set (tb_columns tied_table)"
    by (simp add: tied_table_def)
  have d: "cursor_of ?st = 4"
    by (simp add: cursor_of_def)
  have k3: "0 \<le> cursor_of ?st"
    by (simp add: d)
  have m: "df_len tied_table = 6"
    by (simp add: df_len_def tied_table_def)
  from advance_slice_and_cursor [OF k0 k1 k2 k3 h4]
  have "simulate_real_time_data tie_reversing_sort tied_table 5 ?st =
     (let n = df_len tied_table;
          c = (if cursor_of ?st \<ge> n then 0 else cursor_of ?st)
      in (Some (tied_table\<lparr>tb_rows :=
                  take (nat 5) (drop (nat c) (tie_reversing_sort (tb_rows tied_table)))\<rparr>),
          ?st\<lparr>simulation_index := Some ((c + 5) mod n)\<rparr>))"
    by (elim conjE)
  then have second: "simulate_real_time_data tie_reversing_sort tied_table 5 ?st =
     (Some (tied_table\<lparr>tb_rows := [tied_row ''sensor-002'' 1, tied_row ''sensor-001'' 1]\<rparr>),
      fresh_session\<lparr>simulation_index := Some 3\<rparr>)"
    unfolding Let_def d m tie_reversing_sort_tied_table by simp
  from h0 h1 h2 h3 h4 first k0 k1 k2 k3 second show ?thesis
    by (intro conjI)
qed

subsection \<open>Advancing on an empty batch\<close>

text \<open>
  Claim C9, as the code has it. On a batch without rows, whatever the cursor and the
  step, \<^verbatim>\<open>simulate_real_time_data\<close> returns \<^verbatim>\<open>None\<close> from the bare \<^verbatim>\<open>return\<close> of
  its guard, not a slice, and leaves the session state, the cursor with it, as it was.
\<close>

theorem advance_empty_batch:
  assumes "tb_rows df = []"
  shows "simulate_real_time_data srt df step ss = (None, ss)"
  using assms by (simp add: simulate_real_time_data_def df_empty_def)

text \<open>
  Cursor 0, the empty batch, step 3.
\<close>

theorem advance_empty_batch_witness:
  "tb_rows (empty_table :: rat table) = [] \<and>
   simulate_real_time_data tie_reversing_sort (empty_table :: rat table) 3
       (fresh_session\<lparr>simulation_index := Some 0\<rparr>) =
     (None, fresh_session\<lparr>simulation_index := Some 0\<rparr>)"
proof -
  have h: "tb_rows (empty_table :: rat table) = []"
    by (simp add: empty_table_def)
  from advance_empty_batch [OF h] h show ?thesis by simp
qed

text \<open>
  The result at cursor 0, empty batch, step 3 is \<^verbatim>\<open>None\<close> with the cursor at 0; it is
  not the pair of an empty table and 0.
\<close>

theorem advance_empty_batch_counterexample:
  "simulate_real_time_data tie_reversing_sort (empty_table :: rat table) 3
       (fresh_session\<lparr>simulation_index := Some 0\<rparr>) =
     (None, fresh_session\<lparr>simulation_index := Some 0\<rparr>) \<and>
   simulate_real_time_data tie_reversing_sort (empty_table :: rat table) 3
       (fresh_session\<lparr>simulation_index := Some 0\<rparr>) \<noteq>
     (Some empty_table, fresh_session\<lparr>simulation_index := Some 0\<rparr>)"
  by (simp add: simulate_real_time_data_def df_empty_def empty_table_def)

section \<open>Properties of the fetch wrappers and the page blocks\<close>

subsection \<open>The generator returns for a positive interval\<close>

text \<open>
  With a positive interval the loop ends: with the series, or with the
  \<^verbatim>\<open>OverflowError\<close> of a step beyond the last datetime. So every wrapper returns.
\<close>

lemma while_loop_returns:
  assumes "0 < iv"
  shows "\<exists>r. while_loop rt bv ids iv end_date t acc g = Some r"
proof (induction "nat (datetime_max + 1 - t)" arbitrary: t acc g rule: less_induct)
  case less
  show ?case
  proof (cases "t \<le> end_date")
    case False
    then show ?thesis by (subst while_loop.simps) simp
  next
    case True
    obtain res g2 where pass: "for_sensors rt bv t ids acc g = (res, g2)"
      by (cases "for_sensors rt bv t ids acc g")
    show ?thesis
    proof (cases res)
      case (Inl e)
      with True pass show ?thesis by (subst while_loop.simps) simp
    next
      case acc2: (Inr acc2)
      show ?thesis
      proof (cases "timedelta_minutes iv")
        case (Inl e)
        with True pass acc2 show ?thesis by (subst while_loop.simps) simp
      next
        case d: (Inr d)
        have dpos: "0 < d"
          using d assms
          by (auto simp: timedelta_minutes_def timedelta_us_def us_per_minute_def split: if_splits)
        show ?thesis
        proof (cases "datetime_add t d")
          case (Inl e)
          with True pass acc2 d show ?thesis by (subst while_loop.simps) simp
        next
          case t': (Inr t')
          then have "t' = t + d" and "t + d \<le> datetime_max"
            by (auto simp: datetime_add_def split: if_splits)
          with dpos have "nat (datetime_max + 1 - t') < nat (datetime_max + 1 - t)"
            by simp
          from less [OF this] obtain r where
            "while_loop rt bv ids iv end_date t' acc2 g2 = Some r"
            by blast
          with True pass acc2 d t' show ?thesis by (subst while_loop.simps) simp
        qed
      qed
    qed
  qed
qed

lemma generate_returns:
  "0 < iv \<Longrightarrow> \<exists>r. generate_simulated_data rt start_date end_date sensor_ids iv g = Some r"
  unfolding generate_simulated_data_def Let_def case_prod_beta by (rule while_loop_returns)

lemma last_seven_days_returns: "\<exists>r. last_seven_days rt sensor_ids now g = Some r"
  using generate_returns [of 15 rt _ now sensor_ids g]
  by (auto simp: last_seven_days_def Let_def split: sum.splits)

lemma fetch_all_sensor_data_returns:
  "\<exists>data g'. fetch_all_sensor_data rt now g = Some (data, g')"
  using last_seven_days_returns [of rt None now g]
  by (auto simp: fetch_all_sensor_data_def split: sum.splits)

lemma fetch_sensor_data_in_range_returns:
  "\<exists>data g'. fetch_sensor_data_in_range rt start_date end_date sensor_id g = Some (data, g')"
proof -
  have "\<exists>r. generate_simulated_data rt start_date end_date ids 15 g = Some r" for ids
    by (rule generate_returns) simp
  then show ?thesis
    unfolding fetch_sensor_data_in_range_def
    by (cases sensor_id) (auto split: sum.splits prod.splits option.splits, (metis option.distinct(1))+)
qed

subsection \<open>What the handlers return\<close>

lemma fetch_all_sensor_data_fault:
  "last_seven_days rt None now g = Some (Inl e, g') \<Longrightarrow>
   fetch_all_sensor_data rt now g = Some ([], g')"
  by (simp add: fetch_all_sensor_data_def)

lemma fetch_sensor_data_in_range_fault:
  "generate_simulated_data rt start_date end_date None 15 g = Some (Inl e, g') \<Longrightarrow>
   fetch_sensor_data_in_range rt start_date end_date None g = Some ([], g')"
  by (simp add: fetch_sensor_data_in_range_def)

lemma fetch_sensor_data_by_id_fault:
  "last_seven_days rt (Some [sensor_id]) now g = Some (Inl e, g') \<Longrightarrow>
   fetch_sensor_data_by_id rt sensor_id now g = Some (None, g')"
  by (simp add: fetch_sensor_data_by_id_def)

text \<open>
  Claim C5, at the input where the code departs from it. With the clock at
  0001-01-03T00:00 the start of the last seven days is before the first datetime, and the
  body of the wrappers raises \<^verbatim>\<open>OverflowError\<close>. \<^verbatim>\<open>fetch_sensor_data_by_id\<close>
  catches it and returns \<^verbatim>\<open>None\<close>, where \<^verbatim>\<open>fetch_all_sensor_data\<close> returns the
  empty list for the same fault, as \<^verbatim>\<open>fetch_sensor_data_in_range\<close> does for the fault
  of a range that ends at the last datetime.
\<close>

theorem fetch_by_id_fault_is_None:
  "valid_datetime (mk_datetime 1 1 3 0 0) \<and>
   last_seven_days exact_runtime (Some [''sensor-001'']) (mk_datetime 1 1 3 0 0) 0 =
     Some (Inl OverflowError, 0) \<and>
   fetch_sensor_data_by_id exact_runtime ''sensor-001'' (mk_datetime 1 1 3 0 0) 0 = Some (None, 0) \<and>
   fetch_all_sensor_data exact_runtime (mk_datetime 1 1 3 0 0) 0 = Some ([], 0) \<and>
   fetch_sensor_data_in_range exact_runtime datetime_max datetime_max (Some ''sensor-001'') 0 =
     Some ([], 5)"
  by code_simp

subsection \<open>Storing a new batch\<close>

lemma fetch_data_button_resets:
  assumes "fetch_data_button rt selected start_datetime end_datetime now ss g = Some (ss', g')"
  shows "cursor_of ss' = 0 \<and> real_time_buffer ss' = None"
  using assms
  by (auto simp: fetch_data_button_def Let_def cursor_of_def
        split: option.splits prod.splits if_splits)

lemma auto_refresh_block_keeps_playback:
  assumes "auto_refresh_block rt auto_refresh simulation_mode refresh_interval selected
             start_datetime end_datetime now ss g = Some (ss', g')"
  shows "simulation_index ss' = simulation_index ss \<and> real_time_buffer ss' = real_time_buffer ss"
  using assms
  by (auto simp: auto_refresh_block_def Let_def split: option.splits prod.splits if_splits)

lemma fetch_data_button_cursor_nonnegative:
  assumes "fetch_data_button rt selected start_datetime end_datetime now ss g = Some (ss', g')"
  shows "0 \<le> cursor_of ss'"
  using fetch_data_button_resets [OF assms] by simp

lemma auto_refresh_block_keeps_cursor_nonnegative:
  assumes "auto_refresh_block rt auto_refresh simulation_mode refresh_interval selected
             start_datetime end_datetime now ss g = Some (ss', g')"
    and "0 \<le> cursor_of ss"
  shows "0 \<le> cursor_of ss'"
  using auto_refresh_block_keeps_playback [OF assms(1)] assms(2) by (simp add: cursor_of_def)

text \<open>
  Claim C4, at the input where the code departs from it. In a session in the middle of
  a playback (cursor 5, five rows in the buffer), with auto-refresh on, the simulation
  off and the last refresh 60 seconds old for an interval of 30, the auto-refresh block
  fetches and stores a new batch and leaves the cursor at 5 and the buffer as it was;
  the handler of the button, from the same session, leaves the cursor at 0 and no
  buffer.
\<close>

theorem auto_refresh_keeps_cursor_and_buffer:
  "playback_of
     (auto_refresh_block exact_runtime True False 30 ''All'' (mk_datetime 2024 1 1 0 0)
        (mk_datetime 2024 1 1 0 0) (mk_datetime 2024 1 1 0 1) playing_session 0) =
     Some (Some 5, Some (sample_table 0 5)) \<and>
   batch_of
     (auto_refresh_block exact_runtime True False 30 ''All'' (mk_datetime 2024 1 1 0 0)
        (mk_datetime 2024 1 1 0 0) (mk_datetime 2024 1 1 0 1) playing_session 0) \<noteq>
     Some (sensor_data playing_session) \<and>
   playback_of
     (fetch_data_button exact_runtime ''All'' (mk_datetime 2024 1 1 0 0)
        (mk_datetime 2024 1 1 0 0) (mk_datetime 2024 1 1 0 1) playing_session 0) =
     Some (Some 0, None)"
  by code_simp

end
